theory Spec2Isabelle
  imports Complex_Main "HOL-Library.Multiset"
begin

section \<open>Data model (types.ts)\<close>

text \<open>
  The interfaces of \<^verbatim>\<open>types.ts\<close> as records. An optional field (\<^verbatim>\<open>id?: number\<close>) is an
  \<open>option\<close>; a \<^verbatim>\<open>Date\<close> is its \<^verbatim>\<open>getTime()\<close>, the milliseconds since the epoch; a
  JavaScript \<^verbatim>\<open>number\<close> that holds a coordinate, a distance or a speed is a real number
  (the rounding of IEEE doubles is not modelled). Field names that two interfaces share
  carry a suffix: \<open>_l\<close> for a location point, \<open>_p\<close> for a place, \<open>_v\<close> for a visit,
  \<open>_c\<close> for a cluster.
\<close>

record LocationPoint =
  id_l :: "nat option"
  user_id_l :: string
  latitude :: real
  longitude :: real
  speed :: "real option"
  timestamp :: int
  place_id_l :: "nat option"

record Place =
  id_p :: "nat option"
  user_id_p :: string
  name :: "string option"
  category :: "string option"
  center_lat :: real
  center_lng :: real
  radius :: real
  address :: "string option"
  google_place_id :: "string option"
  google_place_name :: "string option"
  google_place_types :: "string list option"
  visit_count :: "int option"

record PlaceVisit =
  id_v :: "nat option"
  user_id_v :: string
  place_id_v :: "nat option"
  arrival_time :: int
  departure_time :: "int option"
  duration_minutes :: "int option"

record LocationCluster =
  center_lat_c :: real
  center_lng_c :: real
  points :: "LocationPoint list"
  start_time :: int
  end_time :: int
  duration_minutes_c :: int

record TravelStats =
  total_distance_meters :: real
  total_duration_minutes :: real
  moving_time_minutes :: real
  stationary_time_minutes :: real
  average_speed_mps :: real
  max_speed_mps :: real
  date_range_start :: int
  date_range_end :: int

section \<open>Stay clustering (class PlacesAnalyzer)\<close>

text \<open>The constructor's parameters, with their defaults 5 and 50.\<close>

record PlacesAnalyzer =
  minStayMinutes :: real
  clusterRadiusMeters :: real

definition default_analyzer :: PlacesAnalyzer where
  "default_analyzer = \<lparr>minStayMinutes = 5, clusterRadiusMeters = 50\<rparr>"

text \<open>\<^verbatim>\<open>Math.atan2(y, x)\<close> on the reals.\<close>

definition atan2 :: "real \<Rightarrow> real \<Rightarrow> real" where
  "atan2 y x =
     (if 0 < x then arctan (y / x)
      else if x < 0 then (if 0 \<le> y then arctan (y / x) + pi else arctan (y / x) - pi)
      else if 0 < y then pi / 2
      else if y < 0 then - (pi / 2)
      else 0)"

definition haversineDistance :: "real \<Rightarrow> real \<Rightarrow> real \<Rightarrow> real \<Rightarrow> real" where
  "haversineDistance lat1 lon1 lat2 lon2 =
     (let R = 6371000;
          phi1 = lat1 * pi / 180;
          phi2 = lat2 * pi / 180;
          dphi = (lat2 - lat1) * pi / 180;
          dlam = (lon2 - lon1) * pi / 180;
          a = sin (dphi / 2) * sin (dphi / 2)
              + cos phi1 * cos phi2 * sin (dlam / 2) * sin (dlam / 2);
          c = 2 * atan2 (sqrt a) (sqrt (1 - a))
      in R * c)"

text \<open>
  \<^verbatim>\<open>Math.min(...ts)\<close> and \<^verbatim>\<open>Math.max(...ts)\<close> of a non-empty argument list, and
  \<^verbatim>\<open>Math.round\<close>, which rounds a half towards plus infinity.
\<close>

fun Math_min :: "int list \<Rightarrow> int" where
  "Math_min (t # ts) = fold min ts t"

fun Math_max :: "int list \<Rightarrow> int" where
  "Math_max (t # ts) = fold max ts t"

definition Math_round :: "real \<Rightarrow> int" where
  "Math_round x = \<lfloor>x + 1 / 2\<rfloor>"

text \<open>
  \<^verbatim>\<open>createCluster\<close>: the two \<^verbatim>\<open>reduce\<close> calls are left folds from 0. The source calls
  it on non-empty arrays only (both call sites test \<^verbatim>\<open>currentCluster.length > 0\<close>).
\<close>

definition createCluster :: "LocationPoint list \<Rightarrow> LocationCluster" where
  "createCluster pts =
     (let avgLat = foldl (\<lambda>sum p. sum + latitude p) 0 pts / real (length pts);
          avgLng = foldl (\<lambda>sum p. sum + longitude p) 0 pts / real (length pts);
          timestamps = map timestamp pts;
          start = Math_min timestamps;
          end = Math_max timestamps;
          durationMinutes = real_of_int (end - start) / 1000 / 60
      in \<lparr>center_lat_c = avgLat,
          center_lng_c = avgLng,
          points = pts,
          start_time = start,
          end_time = end,
          duration_minutes_c = Math_round durationMinutes\<rparr>)"

text \<open>
  The body of the \<^verbatim>\<open>for\<close> loop of \<^verbatim>\<open>clusterLocations\<close>, as a recursion over the points
  still to visit: \<open>prev\<close> is \<^verbatim>\<open>sorted[i - 1]\<close> and the head \<open>cur\<close> of the list is
  \<^verbatim>\<open>curr = sorted[i]\<close>. The equation for the empty list is the code after the loop
  ("Add final cluster").
\<close>

fun cluster_loop ::
  "PlacesAnalyzer \<Rightarrow> LocationPoint \<Rightarrow> LocationPoint list \<Rightarrow> LocationPoint list
     \<Rightarrow> LocationCluster list \<Rightarrow> LocationCluster list" where
  "cluster_loop an prev [] currentCluster clusters =
     (if length currentCluster > 0 then clusters @ [createCluster currentCluster]
      else clusters)"
| "cluster_loop an prev (cur # rest) currentCluster clusters =
     (let distance = haversineDistance (latitude prev) (longitude prev)
                       (latitude cur) (longitude cur);
          timeDiffMinutes = real_of_int (timestamp cur - timestamp prev) / 1000 / 60
      in if distance \<le> clusterRadiusMeters an \<and> timeDiffMinutes \<le> 30
         then cluster_loop an cur rest (currentCluster @ [cur]) clusters
         else cluster_loop an cur rest [cur]
                (if length currentCluster > 0
                 then clusters @ [createCluster currentCluster]
                 else clusters))"

text \<open>
  \<^verbatim>\<open>Array.prototype.sort\<close> is stable, and so is \<^const>\<open>sort_key\<close>: points with equal
  timestamps keep the order they had in the input.
\<close>

definition clusterLocations :: "PlacesAnalyzer \<Rightarrow> LocationPoint list \<Rightarrow> LocationCluster list" where
  "clusterLocations an locations =
     (if length locations = 0 then []
      else (case sort_key timestamp locations of
              [] \<Rightarrow> []
            | first # rest \<Rightarrow> cluster_loop an first rest [first] []))"

section \<open>The store (class Database)\<close>

text \<open>
  The three tables in insertion order, and the two \<^verbatim>\<open>SERIAL\<close> sequences the modelled
  statements draw ids from. The columns \<^verbatim>\<open>created_at\<close>, \<^verbatim>\<open>updated_at\<close> (wall-clock
  time) and the device columns are left out; \<^verbatim>\<open>geom\<close> is the point
  (\<open>center_lat\<close>, \<open>center_lng\<close>) of its row, which no statement changes after the insert
  (the rounding of \<^verbatim>\<open>NUMERIC(10, 7)\<close> is not modelled).
\<close>

record Tables =
  location_points :: "LocationPoint list"
  places :: "Place list"
  place_visits :: "PlaceVisit list"
  places_id_seq :: nat
  place_visits_id_seq :: nat

text \<open>
  A rejected promise is an error value. \<^verbatim>\<open>pool.query\<close> runs one statement in its own
  implicit transaction: the statement either commits or fails as a whole. The pool
  carries how many more statements the server will execute before the connection is
  lost (\<open>None\<close>: it is never lost), so that every \<^verbatim>\<open>await\<close> of the source is a point
  where the run can be aborted.
\<close>

datatype error = ConnectionError | ForeignKeyViolation

record Pool =
  tables :: Tables
  statements_left :: "nat option"

type_synonym 'a promise = "Pool \<Rightarrow> (error + 'a) \<times> Pool"

definition resolve :: "'a \<Rightarrow> 'a promise" where
  "resolve x pool = (Inr x, pool)"

definition await :: "'a promise \<Rightarrow> ('a \<Rightarrow> 'b promise) \<Rightarrow> 'b promise" where
  "await m k pool =
     (case m pool of
        (Inl e, pool') \<Rightarrow> (Inl e, pool')
      | (Inr x, pool') \<Rightarrow> k x pool')"

definition pool_query :: "(Tables \<Rightarrow> (error + 'a) \<times> Tables) \<Rightarrow> 'a promise" where
  "pool_query statement pool =
     (case statements_left pool of
        None \<Rightarrow>
          (case statement (tables pool) of (r, t') \<Rightarrow> (r, pool\<lparr>tables := t'\<rparr>))
      | Some 0 \<Rightarrow> (Inl ConnectionError, pool)
      | Some (Suc n) \<Rightarrow>
          (case statement (tables pool) of
             (r, t') \<Rightarrow> (r, pool\<lparr>tables := t', statements_left := Some n\<rparr>)))"

text \<open>
  JavaScript's \<^verbatim>\<open>x || null\<close>: an absent or empty string, and an absent or zero number,
  become \<^verbatim>\<open>NULL\<close>. SQL's \<^verbatim>\<open>COALESCE(a, b)\<close>.
\<close>

definition string_or_null :: "string option \<Rightarrow> string option" where
  "string_or_null s = (case s of None \<Rightarrow> None | Some v \<Rightarrow> if v = [] then None else Some v)"

definition number_or_null :: "int option \<Rightarrow> int option" where
  "number_or_null n = (case n of None \<Rightarrow> None | Some v \<Rightarrow> if v = 0 then None else Some v)"

definition COALESCE :: "'a option \<Rightarrow> 'a option \<Rightarrow> 'a option" where
  "COALESCE a b = (case a of None \<Rightarrow> b | Some v \<Rightarrow> Some v)"

text \<open>
  PostGIS's \<^verbatim>\<open>ST_Distance\<close> on \<^verbatim>\<open>geography\<close> points is a parameter \<open>geo\<close> of the
  statements that use it, taking latitude and longitude of the first and of the second
  point.
\<close>

type_synonym st_distance = "real \<Rightarrow> real \<Rightarrow> real \<Rightarrow> real \<Rightarrow> real"

text \<open>
  \<^verbatim>\<open>upsertPlace\<close>. The insert draws the next id before the conflict on
  \<^verbatim>\<open>(user_id, google_place_id)\<close> is detected, and two \<^verbatim>\<open>NULL\<close>s never conflict. On a
  conflict only \<open>name\<close>, \<open>category\<close>, \<open>address\<close> and \<open>google_place_name\<close> are merged.
\<close>

definition upsertPlace_statement :: "Place \<Rightarrow> Tables \<Rightarrow> (error + Place) \<times> Tables" where
  "upsertPlace_statement place t =
     (let new_id = Suc (places_id_seq t);
          excluded =
            \<lparr>id_p = Some new_id,
             user_id_p = user_id_p place,
             name = string_or_null (name place),
             category = string_or_null (category place),
             center_lat = center_lat place,
             center_lng = center_lng place,
             radius = radius place,
             address = string_or_null (address place),
             google_place_id = string_or_null (google_place_id place),
             google_place_name = string_or_null (google_place_name place),
             google_place_types = google_place_types place,
             visit_count = Some 0\<rparr>;
          conflict = (\<lambda>p. google_place_id excluded \<noteq> None
                         \<and> user_id_p p = user_id_p excluded
                         \<and> google_place_id p = google_place_id excluded);
          do_update = (\<lambda>p. p\<lparr>name := COALESCE (name excluded) (name p),
                                category := COALESCE (category excluded) (category p),
                                address := COALESCE (address excluded) (address p),
                                google_place_name :=
                                  COALESCE (google_place_name excluded) (google_place_name p)\<rparr>)
      in case find conflict (places t) of
           None \<Rightarrow>
             (Inr excluded, t\<lparr>places := places t @ [excluded], places_id_seq := new_id\<rparr>)
         | Some old \<Rightarrow>
             (Inr (do_update old),
              t\<lparr>places := map (\<lambda>p. if conflict p then do_update p else p) (places t),
                places_id_seq := new_id\<rparr>))"

definition upsertPlace :: "Place \<Rightarrow> Place promise" where
  "upsertPlace place = pool_query (upsertPlace_statement place)"

text \<open>
  \<^verbatim>\<open>findPlaceNear\<close>: the nearest place of the user within the distance. The query
  (\<^verbatim>\<open>ORDER BY distance_meters LIMIT 1\<close>) leaves open which row it returns when several
  are equally near; the model takes the first of them in table order.
\<close>

definition findPlaceNear ::
  "st_distance \<Rightarrow> string \<Rightarrow> real \<Rightarrow> real \<Rightarrow> real \<Rightarrow> Place option promise" where
  "findPlaceNear geo userId lat lng maxDistanceMeters =
     pool_query (\<lambda>t.
       let distance_meters = (\<lambda>p. geo (center_lat p) (center_lng p) lat lng);
           rows = sort_key distance_meters
                    (filter (\<lambda>p. user_id_p p = userId
                                 \<and> distance_meters p \<le> maxDistanceMeters) (places t))
       in (Inr (case rows of [] \<Rightarrow> None | row # _ \<Rightarrow> Some row), t))"

text \<open>
  \<^verbatim>\<open>getAllPlaces\<close>. The order \<^verbatim>\<open>visit_count DESC, name\<close> of the result is not modelled:
  the rows come in table order.
\<close>

definition getAllPlaces :: "string \<Rightarrow> Place list promise" where
  "getAllPlaces userId =
     pool_query (\<lambda>t. (Inr (filter (\<lambda>p. user_id_p p = userId) (places t)), t))"

definition labelPlace ::
  "string \<Rightarrow> nat \<Rightarrow> string \<Rightarrow> string option \<Rightarrow> Place option promise" where
  "labelPlace userId placeId name' category' =
     pool_query (\<lambda>t.
       let hit = (\<lambda>p. id_p p = Some placeId \<and> user_id_p p = userId);
           set_label = (\<lambda>p. p\<lparr>name := Some name', category := string_or_null category'\<rparr>)
       in (Inr (case find hit (places t) of None \<Rightarrow> None | Some p \<Rightarrow> Some (set_label p)),
           t\<lparr>places := map (\<lambda>p. if hit p then set_label p else p) (places t)\<rparr>))"

text \<open>
  \<^verbatim>\<open>recordPlaceVisit\<close> awaits two statements. The first inserts the visit, or on a
  conflict on \<^verbatim>\<open>(user_id, place_id, arrival_time)\<close> updates departure and duration; the
  insert fails when \<open>place_id\<close> references no place (the sequence has advanced by
  then). The second adds one to the place's counter.
\<close>

definition insert_visit_statement ::
  "PlaceVisit \<Rightarrow> Tables \<Rightarrow> (error + PlaceVisit) \<times> Tables" where
  "insert_visit_statement visit t =
     (let new_id = Suc (place_visits_id_seq t);
          excluded =
            \<lparr>id_v = Some new_id,
             user_id_v = user_id_v visit,
             place_id_v = place_id_v visit,
             arrival_time = arrival_time visit,
             departure_time = departure_time visit,
             duration_minutes = number_or_null (duration_minutes visit)\<rparr>;
          conflict = (\<lambda>v. place_id_v excluded \<noteq> None
                         \<and> user_id_v v = user_id_v excluded
                         \<and> place_id_v v = place_id_v excluded
                         \<and> arrival_time v = arrival_time excluded);
          do_update = (\<lambda>v. v\<lparr>departure_time := departure_time excluded,
                                duration_minutes := duration_minutes excluded\<rparr>)
      in case find conflict (place_visits t) of
           None \<Rightarrow>
             if place_id_v excluded \<noteq> None
                \<and> \<not> list_ex (\<lambda>p. id_p p = place_id_v excluded) (places t)
             then (Inl ForeignKeyViolation, t\<lparr>place_visits_id_seq := new_id\<rparr>)
             else (Inr excluded,
                   t\<lparr>place_visits := place_visits t @ [excluded],
                     place_visits_id_seq := new_id\<rparr>)
         | Some old \<Rightarrow>
             (Inr (do_update old),
              t\<lparr>place_visits :=
                  map (\<lambda>v. if conflict v then do_update v else v) (place_visits t),
                place_visits_id_seq := new_id\<rparr>))"

definition increment_visit_count_statement ::
  "nat option \<Rightarrow> Tables \<Rightarrow> (error + unit) \<times> Tables" where
  "increment_visit_count_statement placeId t =
     (Inr (),
      t\<lparr>places :=
          map (\<lambda>p. if placeId \<noteq> None \<and> id_p p = placeId
                   then p\<lparr>visit_count := map_option (\<lambda>c. c + 1) (visit_count p)\<rparr>
                   else p) (places t)\<rparr>)"

definition recordPlaceVisit :: "PlaceVisit \<Rightarrow> PlaceVisit promise" where
  "recordPlaceVisit visit =
     await (pool_query (insert_visit_statement visit)) (\<lambda>row.
     await (pool_query (increment_visit_count_statement (place_id_v visit))) (\<lambda>_.
     resolve row))"

text \<open>
  \<^verbatim>\<open>getUnprocessedLocations\<close>. The query (\<^verbatim>\<open>ORDER BY timestamp ASC\<close>) leaves the order
  of rows with equal timestamps open; the model takes them in table order.
\<close>

definition getUnprocessedLocations :: "string \<Rightarrow> nat \<Rightarrow> LocationPoint list promise" where
  "getUnprocessedLocations userId limit =
     pool_query (\<lambda>t.
       (Inr (take limit
               (sort_key timestamp
                  (filter (\<lambda>l. user_id_l l = userId \<and> place_id_l l = None)
                     (location_points t)))),
        t))"

definition updateLocationPlace :: "nat \<Rightarrow> nat option \<Rightarrow> unit promise" where
  "updateLocationPlace locationId placeId =
     pool_query (\<lambda>t.
       (Inr (),
        t\<lparr>location_points :=
            map (\<lambda>l. if id_l l = Some locationId then l\<lparr>place_id_l := placeId\<rparr> else l)
              (location_points t)\<rparr>))"

text \<open>
  \<^verbatim>\<open>getTravelStats\<close>. \<open>ordered_points\<close> pairs each row of the window with the row before
  it (\<^verbatim>\<open>LAG\<close>); the outer query keeps the rows that have one
  (\<^verbatim>\<open>WHERE prev_lat IS NOT NULL\<close>), so every aggregate ranges over the second and later
  rows. \<^verbatim>\<open>MAX\<close> and \<^verbatim>\<open>AVG\<close> skip \<^verbatim>\<open>NULL\<close> speeds and are \<^verbatim>\<open>NULL\<close>, read as 0, when no
  speed is left.
\<close>

definition getTravelStats :: "st_distance \<Rightarrow> string \<Rightarrow> int \<Rightarrow> int \<Rightarrow> TravelStats promise" where
  "getTravelStats geo userId startDate endDate =
     pool_query (\<lambda>t.
       let window = sort_key timestamp
                      (filter (\<lambda>l. user_id_l l = userId
                                   \<and> startDate \<le> timestamp l \<and> timestamp l \<le> endDate)
                         (location_points t));
           ordered_points = (case window of [] \<Rightarrow> [] | first # rest \<Rightarrow> zip (first # rest) rest);
           total_distance =
             sum_list (map (\<lambda>(prev, row). geo (latitude row) (longitude row)
                                             (latitude prev) (longitude prev)) ordered_points);
           speeds = concat (map (\<lambda>(prev, row). case speed row of None \<Rightarrow> [] | Some v \<Rightarrow> [v])
                              ordered_points);
           max_speed = (case speeds of [] \<Rightarrow> 0 | v # vs \<Rightarrow> fold max vs v);
           moving = filter (\<lambda>v. v > 0.5) speeds;
           avg_speed_moving =
             (case moving of [] \<Rightarrow> 0 | _ # _ \<Rightarrow> sum_list moving / real (length moving));
           durationMinutes = real_of_int (endDate - startDate) / 1000 / 60
       in (Inr \<lparr>total_distance_meters = total_distance,
                total_duration_minutes = durationMinutes,
                moving_time_minutes = 0,
                stationary_time_minutes = 0,
                average_speed_mps = avg_speed_moving,
                max_speed_mps = max_speed,
                date_range_start = startDate,
                date_range_end = endDate\<rparr>,
           t))"

section \<open>The processing run (PlacesAnalyzer.processUnprocessedLocations)\<close>

text \<open>
  The inner loop of the significant branch: every point with a truthy \<open>id\<close> is assigned
  the place. \<^verbatim>\<open>place.id!\<close> is passed on as it is at run time.
\<close>

fun assign_points :: "LocationPoint list \<Rightarrow> nat option \<Rightarrow> nat \<Rightarrow> nat promise" where
  "assign_points [] placeId processedCount = resolve processedCount"
| "assign_points (point # rest) placeId processedCount =
     (case id_l point of
        None \<Rightarrow> assign_points rest placeId processedCount
      | Some i \<Rightarrow>
          if i \<noteq> 0
          then await (updateLocationPlace i placeId)
                 (\<lambda>_. assign_points rest placeId (processedCount + 1))
          else assign_points rest placeId processedCount)"

text \<open>
  The inner loop of the other branch: it counts the points with a truthy \<open>id\<close> and
  issues no statement.
\<close>

fun count_points :: "LocationPoint list \<Rightarrow> nat \<Rightarrow> nat" where
  "count_points [] processedCount = processedCount"
| "count_points (point # rest) processedCount =
     (case id_l point of
        None \<Rightarrow> count_points rest processedCount
      | Some i \<Rightarrow>
          if i \<noteq> 0 then count_points rest (processedCount + 1)
          else count_points rest processedCount)"

fun process_clusters ::
  "st_distance \<Rightarrow> PlacesAnalyzer \<Rightarrow> string \<Rightarrow> LocationCluster list \<Rightarrow> nat \<Rightarrow> nat promise" where
  "process_clusters geo an userId [] processedCount = resolve processedCount"
| "process_clusters geo an userId (cluster # rest) processedCount =
     (if real_of_int (duration_minutes_c cluster) \<ge> minStayMinutes an
      then
        await (findPlaceNear geo userId (center_lat_c cluster) (center_lng_c cluster)
                 (clusterRadiusMeters an)) (\<lambda>found.
        await (case found of
                 Some place \<Rightarrow> resolve place
               | None \<Rightarrow>
                   upsertPlace
                     \<lparr>id_p = None, user_id_p = userId, name = None, category = None,
                      center_lat = center_lat_c cluster, center_lng = center_lng_c cluster,
                      radius = clusterRadiusMeters an, address = None,
                      google_place_id = None, google_place_name = None,
                      google_place_types = None, visit_count = None\<rparr>) (\<lambda>place.
        await (assign_points (points cluster) (id_p place) processedCount) (\<lambda>processedCount'.
        await (recordPlaceVisit
                 \<lparr>id_v = None, user_id_v = userId, place_id_v = id_p place,
                  arrival_time = start_time cluster,
                  departure_time = Some (end_time cluster),
                  duration_minutes = Some (duration_minutes_c cluster)\<rparr>) (\<lambda>_.
        process_clusters geo an userId rest processedCount'))))
      else process_clusters geo an userId rest (count_points (points cluster) processedCount))"

definition processUnprocessedLocations ::
  "st_distance \<Rightarrow> PlacesAnalyzer \<Rightarrow> string \<Rightarrow> nat promise" where
  "processUnprocessedLocations geo an userId =
     await (getUnprocessedLocations userId 1000) (\<lambda>locations.
       if length locations = 0 then resolve 0
       else process_clusters geo an userId (clusterLocations an locations) 0)"

section \<open>Enrichment (GooglePlacesClient and the tool handler)\<close>

text \<open>
  One result of the Google reverse-geocoding API, and the object \<^verbatim>\<open>reverseGeocode\<close>
  builds from the first result. The response of the API is an input: \<open>None\<close> is a
  request that threw, which \<^verbatim>\<open>reverseGeocode\<close> catches.
\<close>

record GeocodeResult =
  place_id :: string
  formatted_address :: string
  types :: "string list"

record GoogleData =
  google_place_id_g :: string
  google_place_name_g :: string
  address_g :: string
  google_place_types_g :: "string list"
  center_lat_g :: real
  center_lng_g :: real

definition reverseGeocode :: "GeocodeResult list option \<Rightarrow> real \<Rightarrow> real \<Rightarrow> GoogleData option" where
  "reverseGeocode response lat lng =
     (case response of
        None \<Rightarrow> None
      | Some [] \<Rightarrow> None
      | Some (result # _) \<Rightarrow>
          Some \<lparr>google_place_id_g = place_id result,
                google_place_name_g = formatted_address result,
                address_g = formatted_address result,
                google_place_types_g = types result,
                center_lat_g = lat,
                center_lng_g = lng\<rparr>)"

definition categoryMap :: "(string \<times> string list) list" where
  "categoryMap =
     [(''home'', [''home'', ''premise'', ''street_address'']),
      (''work'', [''office'', ''establishment'']),
      (''restaurant'', [''restaurant'', ''food'', ''cafe'', ''bar'', ''bakery'',
                        ''meal_takeaway'', ''meal_delivery'']),
      (''gym'', [''gym'', ''health'', ''fitness'']),
      (''store'', [''store'', ''shopping_mall'', ''supermarket'', ''grocery_or_supermarket'',
                   ''convenience_store'']),
      (''transit'', [''transit_station'', ''train_station'', ''bus_station'', ''airport'',
                     ''subway_station'']),
      (''entertainment'', [''movie_theater'', ''museum'', ''amusement_park'', ''aquarium'',
                           ''art_gallery'', ''bowling_alley'', ''casino'', ''night_club'']),
      (''education'', [''school'', ''university'', ''library'']),
      (''healthcare'', [''hospital'', ''doctor'', ''dentist'', ''pharmacy'', ''health'']),
      (''recreation'', [''park'', ''playground'', ''stadium'', ''campground'']),
      (''lodging'', [''lodging'', ''hotel'', ''motel''])]"

definition inferCategory :: "string list \<Rightarrow> string" where
  "inferCategory tys =
     (case find (\<lambda>(category', keywords). list_ex (\<lambda>ty. ty \<in> set keywords) tys) categoryMap of
        Some (category', keywords) \<Rightarrow> category'
      | None \<Rightarrow> ''other'')"

text \<open>
  The case \<^verbatim>\<open>'enrich_place_with_google'\<close> of the tool handler. \<open>googlePlaces\<close> is \<open>None\<close>
  when no API key is configured, and otherwise answers a reverse-geocoding request with
  the API's response. The replies are the four JSON messages of the case; a rejected
  promise is turned into an error reply by the \<^verbatim>\<open>catch\<close> around the handler.
\<close>

datatype enrich_reply = NotConfigured | PlaceNotFound | Enriched | NoGoogleData

definition enrich_place_with_google ::
  "(real \<Rightarrow> real \<Rightarrow> GeocodeResult list option) option \<Rightarrow> string \<Rightarrow> nat
     \<Rightarrow> enrich_reply promise" where
  "enrich_place_with_google googlePlaces USER_ID placeId =
     (case googlePlaces of
        None \<Rightarrow> resolve NotConfigured
      | Some client \<Rightarrow>
          await (getAllPlaces USER_ID) (\<lambda>all_places.
            case find (\<lambda>p. id_p p = Some placeId) all_places of
              None \<Rightarrow> resolve PlaceNotFound
            | Some place \<Rightarrow>
                (case reverseGeocode (client (center_lat place) (center_lng place))
                        (center_lat place) (center_lng place) of
                   None \<Rightarrow> resolve NoGoogleData
                 | Some googleData \<Rightarrow>
                     if google_place_id_g googleData \<noteq> []
                     then
                       let category' = inferCategory (google_place_types_g googleData)
                       in await (upsertPlace
                                   (place\<lparr>google_place_id := Some (google_place_id_g googleData),
                                          google_place_name :=
                                            Some (google_place_name_g googleData),
                                          address := Some (address_g googleData),
                                          google_place_types :=
                                            Some (google_place_types_g googleData),
                                          center_lat := center_lat_g googleData,
                                          center_lng := center_lng_g googleData,
                                          category := (if category' \<noteq> [] then Some category'
                                                       else category place)\<rparr>))
                            (\<lambda>_. resolve Enriched)
                     else resolve NoGoogleData)))"

section \<open>Notions used to state the properties\<close>

text \<open>
  The link test of the clustering loop as a predicate, the index of the output cluster
  that holds the \<open>i\<close>-th point (counting through the clusters' member lists in order),
  and the maximal runs of a sequence under a relation on neighbours.
\<close>

definition linked :: "PlacesAnalyzer \<Rightarrow> LocationPoint \<Rightarrow> LocationPoint \<Rightarrow> bool" where
  "linked an p q \<longleftrightarrow>
     haversineDistance (latitude p) (longitude p) (latitude q) (longitude q)
       \<le> clusterRadiusMeters an
     \<and> real_of_int (timestamp q - timestamp p) / 1000 / 60 \<le> 30"

fun owner :: "'a list list \<Rightarrow> nat \<Rightarrow> nat" where
  "owner [] i = 0"
| "owner (g # gs) i = (if i < length g then 0 else Suc (owner gs (i - length g)))"

definition cluster_index :: "LocationCluster list \<Rightarrow> nat \<Rightarrow> nat" where
  "cluster_index cs i = owner (map points cs) i"

fun runs :: "('a \<Rightarrow> 'a \<Rightarrow> bool) \<Rightarrow> 'a \<Rightarrow> 'a list \<Rightarrow> 'a list list" where
  "runs P x [] = [[x]]"
| "runs P x (y # ys) =
     (if P x y then (case runs P y ys of [] \<Rightarrow> [[x]] | g # gs \<Rightarrow> (x # g) # gs)
      else [x] # runs P y ys)"

text \<open>Sample rows: a point of user \<open>u\<close> that carries no speed and no place yet.\<close>

definition point_at :: "nat \<Rightarrow> real \<Rightarrow> real \<Rightarrow> int \<Rightarrow> LocationPoint" where
  "point_at i la lo t =
     \<lparr>id_l = Some i, user_id_l = ''u'', latitude = la, longitude = lo, speed = None,
      timestamp = t, place_id_l = None\<rparr>"

text \<open>
  Sample stores: a store that holds the given points and nothing else; one processing run
  of user \<open>u\<close> with the default analyzer, PostGIS distances taken as great-circle
  distances; and a later upload, which appends rows to the points table.
\<close>

definition store_of :: "LocationPoint list \<Rightarrow> Pool" where
  "store_of pts =
     \<lparr>tables = \<lparr>location_points = pts, places = [], place_visits = [],
                places_id_seq = 0, place_visits_id_seq = 0\<rparr>,
      statements_left = None\<rparr>"

definition run_once :: "Pool \<Rightarrow> Pool" where
  "run_once pool =
     snd (processUnprocessedLocations haversineDistance default_analyzer ''u'' pool)"

definition upload :: "LocationPoint list \<Rightarrow> Pool \<Rightarrow> Pool" where
  "upload pts pool =
     pool\<lparr>tables := (tables pool)\<lparr>location_points := location_points (tables pool) @ pts\<rparr>\<rparr>"

text \<open>
  A store with one unlabelled place, a Google client that answers every request with the
  same address, and the store reached from there by enriching place 1 (which inserts a
  second row that carries the Google id), labelling that row \<open>Home\<close> and labelling
  place 1 \<open>Work\<close>.
\<close>

definition sample_place :: Place where
  "sample_place =
     \<lparr>id_p = Some 1, user_id_p = ''u'', name = None, category = None,
      center_lat = 0, center_lng = 0, radius = 50, address = None,
      google_place_id = None, google_place_name = None,
      google_place_types = None, visit_count = Some 0\<rparr>"

definition place_store :: Pool where
  "place_store =
     \<lparr>tables = \<lparr>location_points = [], places = [sample_place], place_visits = [],
                places_id_seq = 1, place_visits_id_seq = 0\<rparr>,
      statements_left = None\<rparr>"

definition sample_client :: "real \<Rightarrow> real \<Rightarrow> GeocodeResult list option" where
  "sample_client lat lng =
     Some [\<lparr>place_id = ''G'', formatted_address = ''1 Main St'', types = [''premise'']\<rparr>]"

definition labelled_store :: Pool where
  "labelled_store =
     snd (labelPlace ''u'' 1 ''Work'' None
       (snd (labelPlace ''u'' 2 ''Home'' None
         (snd (enrich_place_with_google (Some sample_client) ''u'' 1 place_store)))))"

text \<open>The object the processing run passes to \<^verbatim>\<open>upsertPlace\<close> for a new place.\<close>

definition new_place :: "PlacesAnalyzer \<Rightarrow> string \<Rightarrow> LocationCluster \<Rightarrow> Place" where
  "new_place an userId cluster =
     \<lparr>id_p = None, user_id_p = userId, name = None, category = None,
      center_lat = center_lat_c cluster, center_lng = center_lng_c cluster,
      radius = clusterRadiusMeters an, address = None,
      google_place_id = None, google_place_name = None,
      google_place_types = None, visit_count = None\<rparr>"

text \<open>
  The statements the processing run issues for one significant cluster, in order: the
  nearest-place query; the insert of a new place when the query found none; one
  assignment for every member point with a truthy id; the visit upsert; the counter
  increment. \<open>found_place\<close> is the row the query returns, \<open>cluster_place\<close> the place
  the cluster is booked on, \<open>with_cluster_place\<close> the tables once that place exists,
  \<open>statements_before_assignments\<close> the number of statements up to there, and
  \<open>assigned \<dots> j\<close> the tables after the first \<open>j\<close> assignments.
\<close>

definition nearest_place ::
  "st_distance \<Rightarrow> string \<Rightarrow> real \<Rightarrow> real \<Rightarrow> real \<Rightarrow> Tables \<Rightarrow> Place option" where
  "nearest_place geo userId lat lng maxDistanceMeters t =
     (case sort_key (\<lambda>p. geo (center_lat p) (center_lng p) lat lng)
             (filter (\<lambda>p. user_id_p p = userId
                          \<and> geo (center_lat p) (center_lng p) lat lng \<le> maxDistanceMeters)
                (places t)) of
        [] \<Rightarrow> None
      | row # _ \<Rightarrow> Some row)"

definition found_place ::
  "st_distance \<Rightarrow> PlacesAnalyzer \<Rightarrow> string \<Rightarrow> LocationCluster \<Rightarrow> Tables \<Rightarrow> Place option" where
  "found_place geo an userId cluster t =
     nearest_place geo userId (center_lat_c cluster) (center_lng_c cluster)
       (clusterRadiusMeters an) t"

definition inserted_place :: "PlacesAnalyzer \<Rightarrow> string \<Rightarrow> LocationCluster \<Rightarrow> Tables \<Rightarrow> Place" where
  "inserted_place an userId cluster t =
     (new_place an userId cluster)\<lparr>id_p := Some (Suc (places_id_seq t)), visit_count := Some 0\<rparr>"

definition cluster_place ::
  "st_distance \<Rightarrow> PlacesAnalyzer \<Rightarrow> string \<Rightarrow> LocationCluster \<Rightarrow> Tables \<Rightarrow> Place" where
  "cluster_place geo an userId cluster t =
     (case found_place geo an userId cluster t of
        Some place \<Rightarrow> place
      | None \<Rightarrow> inserted_place an userId cluster t)"

definition with_cluster_place ::
  "st_distance \<Rightarrow> PlacesAnalyzer \<Rightarrow> string \<Rightarrow> LocationCluster \<Rightarrow> Tables \<Rightarrow> Tables" where
  "with_cluster_place geo an userId cluster t =
     (case found_place geo an userId cluster t of
        Some place \<Rightarrow> t
      | None \<Rightarrow> t\<lparr>places := places t @ [inserted_place an userId cluster t],
                   places_id_seq := Suc (places_id_seq t)\<rparr>)"

definition statements_before_assignments ::
  "st_distance \<Rightarrow> PlacesAnalyzer \<Rightarrow> string \<Rightarrow> LocationCluster \<Rightarrow> Tables \<Rightarrow> nat" where
  "statements_before_assignments geo an userId cluster t =
     (case found_place geo an userId cluster t of Some place \<Rightarrow> 1 | None \<Rightarrow> 2)"

definition truthy_ids :: "LocationPoint list \<Rightarrow> nat list" where
  "truthy_ids pts =
     concat (map (\<lambda>p. case id_l p of None \<Rightarrow> [] | Some i \<Rightarrow> if i \<noteq> 0 then [i] else []) pts)"

definition assign_write :: "nat option \<Rightarrow> Tables \<Rightarrow> nat \<Rightarrow> Tables" where
  "assign_write placeId t i =
     t\<lparr>location_points :=
         map (\<lambda>l. if id_l l = Some i then l\<lparr>place_id_l := placeId\<rparr> else l)
           (location_points t)\<rparr>"

definition assigned ::
  "st_distance \<Rightarrow> PlacesAnalyzer \<Rightarrow> string \<Rightarrow> LocationCluster \<Rightarrow> Tables \<Rightarrow> nat \<Rightarrow> Tables" where
  "assigned geo an userId cluster t j =
     foldl (assign_write (id_p (cluster_place geo an userId cluster t)))
       (with_cluster_place geo an userId cluster t)
       (take j (truthy_ids (points cluster)))"

definition cluster_visit :: "string \<Rightarrow> LocationCluster \<Rightarrow> Place \<Rightarrow> PlaceVisit" where
  "cluster_visit userId cluster place =
     \<lparr>id_v = None, user_id_v = userId, place_id_v = id_p place,
      arrival_time = start_time cluster,
      departure_time = Some (end_time cluster),
      duration_minutes = Some (duration_minutes_c cluster)\<rparr>"

section \<open>Geo math on sample coordinates\<close>

lemma point_at_sel [simp]:
  "id_l (point_at i la lo t) = Some i"
  "user_id_l (point_at i la lo t) = ''u''"
  "latitude (point_at i la lo t) = la"
  "longitude (point_at i la lo t) = lo"
  "speed (point_at i la lo t) = None"
  "timestamp (point_at i la lo t) = t"
  "place_id_l (point_at i la lo t) = None"
  by (simp_all add: point_at_def)

lemma haversine_same: "haversineDistance la lo la lo = 0"
  by (simp add: haversineDistance_def atan2_def)

lemma haversine_half_turn:
  "haversineDistance 0 0 0 180 = 6371000 * pi"
  "haversineDistance 0 180 0 0 = 6371000 * pi"
  by (simp_all add: haversineDistance_def atan2_def)

lemma default_radius_nonneg: "0 \<le> clusterRadiusMeters default_analyzer"
  by (simp add: default_analyzer_def)

lemma half_turn_far: "\<not> 6371000 * pi \<le> clusterRadiusMeters default_analyzer"
  using pi_ge_two by (simp add: default_analyzer_def)

section \<open>The clustering function partitions its input\<close>

lemma points_createCluster: "points (createCluster pts) = pts"
  by (simp add: createCluster_def Let_def)

lemma concat_cluster_loop:
  "concat (map points (cluster_loop an prev rest cur cl)) = concat (map points cl) @ cur @ rest"
  by (induction rest arbitrary: prev cur cl) (simp_all add: points_createCluster Let_def)

lemma sort_key_Nil_iff: "sort_key f xs = [] \<longleftrightarrow> xs = []"
  by (metis length_0_conv length_sort)

lemma concat_clusterLocations:
  "concat (map points (clusterLocations an locations)) = sort_key timestamp locations"
  by (cases "sort_key timestamp locations")
     (auto simp: clusterLocations_def concat_cluster_loop sort_key_Nil_iff)

text \<open>
  Claim C4. The member lists of the output clusters, put end to end, hold exactly the
  input points, each as often as the input has it: no point is dropped and none is in
  two clusters.
\<close>

theorem clusterLocations_partition:
  "mset (concat (map points (clusterLocations an locations))) = mset locations"
  by (simp add: concat_clusterLocations)

theorem clusterLocations_partition_witness:
  "mset (concat (map points (clusterLocations default_analyzer
      [point_at 2 0 180 0, point_at 1 0 0 0, point_at 3 0 0 1])))
   = mset [point_at 2 0 180 0, point_at 1 0 0 0, point_at 3 0 0 1]"
  using clusterLocations_partition
          [of default_analyzer "[point_at 2 0 180 0, point_at 1 0 0 0, point_at 3 0 0 1]"]
  by simp

section \<open>Clusters are the maximal runs of linked neighbours\<close>

lemma runs_shape: "\<exists>g gs. runs P x ys = (x # g) # gs"
  by (induction ys arbitrary: x) (auto split: list.splits)

lemma cluster_loop_runs:
  "map points (cluster_loop an prev rest (g @ [prev]) cl) =
     map points cl @ (case runs (linked an) prev rest of [] \<Rightarrow> [] | h # hs \<Rightarrow> (g @ h) # hs)"
proof (induction rest arbitrary: prev g cl)
  case Nil
  then show ?case by (simp add: points_createCluster)
next
  case (Cons y ys)
  obtain h hs where R: "runs (linked an) y ys = (y # h) # hs"
    using runs_shape[of "linked an" y ys] by blast
  show ?case
  proof (cases "linked an prev y")
    case True
    then have "cluster_loop an prev (y # ys) (g @ [prev]) cl
        = cluster_loop an y ys ((g @ [prev]) @ [y]) cl"
      by (simp add: linked_def Let_def)
    then show ?thesis using Cons.IH[of y "g @ [prev]" cl] True R by simp
  next
    case False
    then have "cluster_loop an prev (y # ys) (g @ [prev]) cl
        = cluster_loop an y ys ([] @ [y]) (cl @ [createCluster (g @ [prev])])"
      by (auto simp add: linked_def Let_def)
    then show ?thesis
      using Cons.IH[of y "[]" "cl @ [createCluster (g @ [prev])]"] False R
      by (simp add: points_createCluster)
  qed
qed

lemma all_shift:
  "(\<forall>k. Suc i \<le> k \<and> k < Suc j \<longrightarrow> Q k) = (\<forall>k. i \<le> k \<and> k < j \<longrightarrow> Q (Suc k))"
proof
  assume L: "\<forall>k. Suc i \<le> k \<and> k < Suc j \<longrightarrow> Q k"
  show "\<forall>k. i \<le> k \<and> k < j \<longrightarrow> Q (Suc k)" using L by simp
next
  assume R: "\<forall>k. i \<le> k \<and> k < j \<longrightarrow> Q (Suc k)"
  show "\<forall>k. Suc i \<le> k \<and> k < Suc j \<longrightarrow> Q k"
  proof (intro allI impI)
    fix k assume "Suc i \<le> k \<and> k < Suc j"
    then obtain k' where "k = Suc k'" "i \<le> k'" "k' < j" by (cases k) auto
    then show "Q k" using R by simp
  qed
qed

lemma all_zero:
  "(\<forall>k. 0 \<le> k \<and> k < Suc j \<longrightarrow> Q k) = (Q 0 \<and> (\<forall>k. 0 \<le> k \<and> k < j \<longrightarrow> Q (Suc k)))"
proof
  assume L: "\<forall>k. 0 \<le> k \<and> k < Suc j \<longrightarrow> Q k"
  show "Q 0 \<and> (\<forall>k. 0 \<le> k \<and> k < j \<longrightarrow> Q (Suc k))" using L by simp
next
  assume R: "Q 0 \<and> (\<forall>k. 0 \<le> k \<and> k < j \<longrightarrow> Q (Suc k))"
  show "\<forall>k. 0 \<le> k \<and> k < Suc j \<longrightarrow> Q k"
  proof (intro allI impI)
    fix k assume "0 \<le> k \<and> k < Suc j"
    then show "Q k" using R by (cases k) auto
  qed
qed

lemma owner_runs:
  "i \<le> j \<Longrightarrow> j < length (x # rest) \<Longrightarrow>
   (owner (runs P x rest) i = owner (runs P x rest) j)
     = (\<forall>k. i \<le> k \<and> k < j \<longrightarrow> P ((x # rest) ! k) ((x # rest) ! Suc k))"
proof (induction rest arbitrary: x i j)
  case Nil
  then show ?case by simp
next
  case (Cons y ys)
  obtain h hs where R: "runs P y ys = (y # h) # hs"
    using runs_shape[of P y ys] by blast
  have o0: "owner (runs P y ys) 0 = 0" using R by simp
  show ?case
  proof (cases i)
    case 0
    note i0 = 0
    show ?thesis
    proof (cases j)
      case 0
      then show ?thesis using i0 by simp
    next
      case (Suc j')
      have IH: "(owner (runs P y ys) 0 = owner (runs P y ys) j')
           = (\<forall>k. 0 \<le> k \<and> k < j' \<longrightarrow> P ((y # ys) ! k) ((y # ys) ! Suc k))"
        using Cons.IH[of 0 j' y] Cons.prems Suc by simp
      show ?thesis
      proof (cases "P x y")
        case True
        have "owner (runs P x (y # ys)) (Suc j') = owner (runs P y ys) j'"
          using True R by simp
        moreover have "owner (runs P x (y # ys)) 0 = 0" using True R by simp
        ultimately show ?thesis unfolding i0 Suc all_zero using IH o0 True by simp
      next
        case False
        then show ?thesis unfolding i0 Suc all_zero by simp
      qed
    qed
  next
    case (Suc i')
    then obtain j' where j: "j = Suc j'" using Cons.prems by (cases j) auto
    have IH: "(owner (runs P y ys) i' = owner (runs P y ys) j')
           = (\<forall>k. i' \<le> k \<and> k < j' \<longrightarrow> P ((y # ys) ! k) ((y # ys) ! Suc k))"
      using Cons.IH[of i' j' y] Cons.prems Suc j by simp
    have "\<And>m. owner (runs P x (y # ys)) (Suc m)
        = (if P x y then owner (runs P y ys) m else Suc (owner (runs P y ys) m))"
      using R by simp
    then show ?thesis unfolding Suc j all_shift using IH by simp
  qed
qed

text \<open>
  Claim C5. On a time-ordered input the clusters' member lists, put end to end, are the
  input itself, and the points at positions \<open>i \<le> j\<close> lie in the same cluster exactly
  when every pair of neighbours from \<open>i\<close> to \<open>j\<close> is within the cluster radius by
  haversine distance and at most 30 minutes apart. Nothing but these neighbour tests
  decides the membership.
\<close>

theorem clusterLocations_same_cluster_iff:
  assumes "sorted (map timestamp locs)" and "i \<le> j" and "j < length locs"
  shows "concat (map points (clusterLocations an locs)) = locs \<and>
    ((cluster_index (clusterLocations an locs) i = cluster_index (clusterLocations an locs) j)
      = (\<forall>k. i \<le> k \<and> k < j \<longrightarrow>
           haversineDistance (latitude (locs ! k)) (longitude (locs ! k))
             (latitude (locs ! Suc k)) (longitude (locs ! Suc k)) \<le> clusterRadiusMeters an
           \<and> real_of_int (timestamp (locs ! Suc k) - timestamp (locs ! k)) / 1000 / 60 \<le> 30))"
proof -
  have s: "sort_key timestamp locs = locs" using assms(1) by (rule sort_key_id_if_sorted)
  obtain x rest where l: "locs = x # rest" using assms(3) by (cases locs) auto
  have "map points (clusterLocations an locs) = map points (cluster_loop an x rest ([] @ [x]) [])"
    using s l by (simp add: clusterLocations_def)
  also have "\<dots> = runs (linked an) x rest"
    using runs_shape[of "linked an" x rest] cluster_loop_runs[of an x rest "[]" "[]"] by auto
  finally have m: "map points (clusterLocations an locs) = runs (linked an) x rest" .
  have "(owner (runs (linked an) x rest) i = owner (runs (linked an) x rest) j)
     = (\<forall>k. i \<le> k \<and> k < j \<longrightarrow> linked an (locs ! k) (locs ! Suc k))"
    using owner_runs[of i j x rest "linked an"] assms l by simp
  then have "(cluster_index (clusterLocations an locs) i
               = cluster_index (clusterLocations an locs) j)
      = (\<forall>k. i \<le> k \<and> k < j \<longrightarrow>
           haversineDistance (latitude (locs ! k)) (longitude (locs ! k))
             (latitude (locs ! Suc k)) (longitude (locs ! Suc k)) \<le> clusterRadiusMeters an
           \<and> real_of_int (timestamp (locs ! Suc k) - timestamp (locs ! k)) / 1000 / 60 \<le> 30)"
    unfolding cluster_index_def m linked_def .
  moreover have "concat (map points (clusterLocations an locs)) = locs"
    using s by (simp add: concat_clusterLocations)
  ultimately show ?thesis by blast
qed

theorem clusterLocations_same_cluster_iff_witness:
  "sorted (map timestamp [point_at 1 0 0 0, point_at 2 0 0 60000, point_at 3 0 0 3600000])
   \<and> cluster_index (clusterLocations default_analyzer
        [point_at 1 0 0 0, point_at 2 0 0 60000, point_at 3 0 0 3600000]) 0
     = cluster_index (clusterLocations default_analyzer
        [point_at 1 0 0 0, point_at 2 0 0 60000, point_at 3 0 0 3600000]) 1
   \<and> cluster_index (clusterLocations default_analyzer
        [point_at 1 0 0 0, point_at 2 0 0 60000, point_at 3 0 0 3600000]) 1
     \<noteq> cluster_index (clusterLocations default_analyzer
        [point_at 1 0 0 0, point_at 2 0 0 60000, point_at 3 0 0 3600000]) 2"
proof -
  let ?L = "[point_at 1 0 0 0, point_at 2 0 0 60000, point_at 3 0 0 3600000]"
  have s: "sorted (map timestamp ?L)" by simp
  have a: "\<forall>k. 0 \<le> k \<and> k < 1 \<longrightarrow>
           haversineDistance (latitude (?L ! k)) (longitude (?L ! k))
             (latitude (?L ! Suc k)) (longitude (?L ! Suc k))
               \<le> clusterRadiusMeters default_analyzer
           \<and> real_of_int (timestamp (?L ! Suc k) - timestamp (?L ! k)) / 1000 / 60 \<le> 30"
    by (simp add: haversine_same default_analyzer_def)
  have b: "\<not> (\<forall>k. 1 \<le> k \<and> k < 2 \<longrightarrow>
           haversineDistance (latitude (?L ! k)) (longitude (?L ! k))
             (latitude (?L ! Suc k)) (longitude (?L ! Suc k))
               \<le> clusterRadiusMeters default_analyzer
           \<and> real_of_int (timestamp (?L ! Suc k) - timestamp (?L ! k)) / 1000 / 60 \<le> 30)"
    by (simp add: exI[of _ 1])
  show ?thesis
    using s a b clusterLocations_same_cluster_iff[of ?L 0 1 default_analyzer]
      clusterLocations_same_cluster_iff[of ?L 1 2 default_analyzer]
    by simp
qed

section \<open>The cluster summary\<close>

lemma foldl_sum: "foldl (\<lambda>sum p. sum + f p) a ps = a + sum_list (map f ps)" for a :: real
  by (induction ps arbitrary: a) simp_all

lemma Math_min_Min: "ts \<noteq> [] \<Longrightarrow> Math_min ts = Min (set ts)"
proof (cases ts)
  case (Cons a list)
  then show ?thesis using Min.set_eq_fold[of a list] by simp
qed simp

lemma Math_max_Max: "ts \<noteq> [] \<Longrightarrow> Math_max ts = Max (set ts)"
proof (cases ts)
  case (Cons a list)
  then show ?thesis using Max.set_eq_fold[of a list] by simp
qed simp

lemma Math_round_nearest: "\<bar>real_of_int (Math_round x) - x\<bar> \<le> 1 / 2"
  unfolding Math_round_def by linarith

lemma start_time_createCluster:
  "pts \<noteq> [] \<Longrightarrow> start_time (createCluster pts) = Min (timestamp ` set pts)"
  by (simp add: createCluster_def Let_def Math_min_Min)

lemma end_time_createCluster:
  "pts \<noteq> [] \<Longrightarrow> end_time (createCluster pts) = Max (timestamp ` set pts)"
  by (simp add: createCluster_def Let_def Math_max_Max)

lemma duration_createCluster:
  "duration_minutes_c (createCluster pts)
     = Math_round (real_of_int (end_time (createCluster pts) - start_time (createCluster pts))
                     / 1000 / 60)"
  by (simp add: createCluster_def Let_def)

lemma duration_single: "duration_minutes_c (createCluster [p]) = 0"
  by (simp add: createCluster_def Let_def Math_round_def)

text \<open>
  Claim C6. For a non-empty member list the summary's centre is the arithmetic mean of
  the latitudes and of the longitudes, its start and end are the least and the greatest
  timestamp, and its duration is the span in minutes rounded to the nearest integer (a
  half rounds up, as \<^verbatim>\<open>Math.round\<close> does); one point alone gives duration 0.
\<close>

theorem createCluster_summary:
  assumes "pts \<noteq> []"
  shows "center_lat_c (createCluster pts) = sum_list (map latitude pts) / real (length pts)
    \<and> center_lng_c (createCluster pts) = sum_list (map longitude pts) / real (length pts)
    \<and> start_time (createCluster pts) = Min (timestamp ` set pts)
    \<and> end_time (createCluster pts) = Max (timestamp ` set pts)
    \<and> duration_minutes_c (createCluster pts)
        = \<lfloor>real_of_int (end_time (createCluster pts) - start_time (createCluster pts)) / 60000
            + 1 / 2\<rfloor>
    \<and> \<bar>real_of_int (duration_minutes_c (createCluster pts))
         - real_of_int (end_time (createCluster pts) - start_time (createCluster pts)) / 60000\<bar>
        \<le> 1 / 2
    \<and> (length pts = 1 \<longrightarrow> duration_minutes_c (createCluster pts) = 0)"
proof -
  have 1: "center_lat_c (createCluster pts) = sum_list (map latitude pts) / real (length pts)"
    by (simp add: createCluster_def Let_def foldl_sum)
  have 2: "center_lng_c (createCluster pts) = sum_list (map longitude pts) / real (length pts)"
    by (simp add: createCluster_def Let_def foldl_sum)
  have 5: "duration_minutes_c (createCluster pts)
        = \<lfloor>real_of_int (end_time (createCluster pts) - start_time (createCluster pts)) / 60000
            + 1 / 2\<rfloor>"
    by (simp add: duration_createCluster Math_round_def)
  have 6: "\<bar>real_of_int (duration_minutes_c (createCluster pts))
         - real_of_int (end_time (createCluster pts) - start_time (createCluster pts)) / 60000\<bar>
        \<le> 1 / 2"
    using Math_round_nearest
            [of "real_of_int (end_time (createCluster pts) - start_time (createCluster pts))
                   / 60000"]
    by (simp add: duration_createCluster)
  have 7: "length pts = 1 \<longrightarrow> duration_minutes_c (createCluster pts) = 0"
  proof
    assume "length pts = 1"
    then obtain p where "pts = [p]" by (cases pts) auto
    then show "duration_minutes_c (createCluster pts) = 0" by (simp add: duration_single)
  qed
  show ?thesis
    using 1 2 5 6 7 start_time_createCluster[OF assms] end_time_createCluster[OF assms]
    by blast
qed

theorem createCluster_summary_witness:
  "[point_at 1 0 0 0, point_at 2 2 4 90000] \<noteq> []
   \<and> center_lat_c (createCluster [point_at 1 0 0 0, point_at 2 2 4 90000]) = 1
   \<and> center_lng_c (createCluster [point_at 1 0 0 0, point_at 2 2 4 90000]) = 2
   \<and> start_time (createCluster [point_at 1 0 0 0, point_at 2 2 4 90000]) = 0
   \<and> end_time (createCluster [point_at 1 0 0 0, point_at 2 2 4 90000]) = 90000
   \<and> duration_minutes_c (createCluster [point_at 1 0 0 0, point_at 2 2 4 90000]) = 2"
  using createCluster_summary[of "[point_at 1 0 0 0, point_at 2 2 4 90000]"]
  by simp

section \<open>The order of the input\<close>

lemma filter_eq_replicate: "filter (\<lambda>x. x = k) zs = replicate (count (mset zs) k) k"
  by (induction zs) simp_all

lemma sort_key_distinct_perm:
  assumes "distinct (map f xs)" and "mset ys = mset xs"
  shows "sort_key f ys = sort_key f xs"
proof (rule properties_for_sort_key)
  show "mset (sort_key f xs) = mset ys" using assms(2) by simp
  show "sorted (map f (sort_key f xs))" by simp
  fix k assume "k \<in> set (sort_key f xs)"
  then have k: "k \<in> set xs" by simp
  have inj: "inj_on f (set xs)" using assms(1) by (simp add: distinct_map)
  have sxy: "set ys = set xs" using assms(2) by (metis mset_eq_setD)
  have 1: "filter (\<lambda>x. f k = f x) (sort_key f xs) = filter (\<lambda>x. x = k) (sort_key f xs)"
    by (rule filter_cong) (use inj k in \<open>auto simp: inj_on_def\<close>)
  have 2: "filter (\<lambda>x. f k = f x) ys = filter (\<lambda>x. x = k) ys"
    by (rule filter_cong) (use inj k sxy in \<open>auto simp: inj_on_def\<close>)
  show "filter (\<lambda>x. f k = f x) (sort_key f xs) = filter (\<lambda>x. f k = f x) ys"
    unfolding 1 2 filter_eq_replicate using assms(2) by simp
qed

text \<open>
  Claim C10, as the code has it. The sort is by timestamp alone and stable, so the
  clusters do not depend on the order of the input when no two points share a
  timestamp.
\<close>

theorem clusterLocations_permutation_distinct:
  assumes "distinct (map timestamp xs)" and "mset ys = mset xs"
  shows "clusterLocations an ys = clusterLocations an xs"
proof -
  have "length ys = length xs" using assms(2) by (rule mset_eq_length)
  then show ?thesis
    using sort_key_distinct_perm[OF assms] by (simp add: clusterLocations_def)
qed

theorem clusterLocations_permutation_distinct_witness:
  "distinct (map timestamp [point_at 1 0 0 0, point_at 2 0 180 60000])
   \<and> mset [point_at 2 0 180 60000, point_at 1 0 0 0]
       = mset [point_at 1 0 0 0, point_at 2 0 180 60000]
   \<and> clusterLocations default_analyzer [point_at 2 0 180 60000, point_at 1 0 0 0]
     = clusterLocations default_analyzer [point_at 1 0 0 0, point_at 2 0 180 60000]"
  using clusterLocations_permutation_distinct
          [of "[point_at 1 0 0 0, point_at 2 0 180 60000]"
              "[point_at 2 0 180 60000, point_at 1 0 0 0]" default_analyzer]
  by (simp add: point_at_def)

text \<open>
  Claim C10 as stated fails when two points share a timestamp: with the first two of
  these three points swapped, the same input gives three clusters in one order and two
  in the other.
\<close>

theorem clusterLocations_permutation_counterexample:
  "mset [point_at 2 0 180 0, point_at 1 0 0 0, point_at 3 0 0 1]
     = mset [point_at 1 0 0 0, point_at 2 0 180 0, point_at 3 0 0 1]
   \<and> length (clusterLocations default_analyzer
        [point_at 1 0 0 0, point_at 2 0 180 0, point_at 3 0 0 1]) = 3
   \<and> length (clusterLocations default_analyzer
        [point_at 2 0 180 0, point_at 1 0 0 0, point_at 3 0 0 1]) = 2"
  by (simp add: clusterLocations_def haversine_same haversine_half_turn half_turn_far
        default_radius_nonneg)

section \<open>Sample runs of the processing engine\<close>

lemmas run_defs = processUnprocessedLocations_def await_def resolve_def pool_query_def
  getUnprocessedLocations_def clusterLocations_def Let_def store_of_def createCluster_def
  Math_round_def findPlaceNear_def upsertPlace_def upsertPlace_statement_def
  recordPlaceVisit_def insert_visit_statement_def increment_visit_count_statement_def
  updateLocationPlace_def string_or_null_def number_or_null_def COALESCE_def

lemmas geo_simps = haversine_same haversine_half_turn half_turn_far default_radius_nonneg

lemma default_min_stay [simp]: "minStayMinutes default_analyzer = 5"
  by (simp add: default_analyzer_def)

text \<open>Along a meridian the haversine distance is the arc length.\<close>

lemma haversine_meridian:
  assumes "0 \<le> d" and "d < 180"
  shows "haversineDistance la lo (la + d) lo = 6371000 * (d * pi / 180)"
proof -
  define x where "x = d * pi / 360"
  have x0: "0 \<le> x" using assms by (simp add: x_def)
  have "d * pi < 180 * pi" using assms by simp
  then have x1: "x < pi / 2" by (simp add: x_def)
  have s: "0 \<le> sin x" using x0 x1 by (intro sin_ge_zero) (use pi_gt_zero in linarith)+
  have c: "0 < cos x" using x0 x1 by (intro cos_gt_zero_pi) linarith+
  have a: "sqrt (sin x * sin x) = sin x" using s by simp
  have "1 - sin x * sin x = cos x * cos x"
    using sin_cos_squared_add[of x] by (simp add: power2_eq_square algebra_simps)
  then have b: "sqrt (1 - sin x * sin x) = cos x" using c by simp
  have "atan2 (sin x) (cos x) = arctan (tan x)" using c by (simp add: atan2_def tan_def)
  also have "\<dots> = x" using x0 x1 by (intro arctan_tan) linarith+
  finally have t: "atan2 (sin x) (cos x) = x" .
  have dx: "(la + d - la) * pi / 180 / 2 = x" by (simp add: x_def)
  have "haversineDistance la lo (la + d) lo
      = 6371000 * (2 * atan2 (sqrt (sin x * sin x)) (sqrt (1 - sin x * sin x)))"
    unfolding haversineDistance_def Let_def dx by simp
  also have "\<dots> = 6371000 * (2 * x)" unfolding a b t ..
  also have "\<dots> = 6371000 * (d * pi / 180)" by (simp add: x_def)
  finally show ?thesis .
qed

lemma eleven_metres_near:
  "haversineDistance 0 0 (1 / 10000) 0 \<le> clusterRadiusMeters default_analyzer"
proof -
  have "haversineDistance 0 0 (0 + 1 / 10000) 0 = 6371000 * (1 / 10000 * pi / 180)"
    by (rule haversine_meridian) simp_all
  moreover have "pi < 4" by (rule pi_less_4)
  ultimately show ?thesis by (simp add: default_analyzer_def)
qed

text \<open>
  Claim C2, on the code. Three points at one spot spanning two minutes form one cluster
  below the minimum stay. The run records no visit, reports the three points as
  processed and leaves the store as it was: no point has its place reference set, and
  the query for unprocessed points returns the same three points again.
\<close>

theorem short_cluster_points_stay_unprocessed:
  "processUnprocessedLocations haversineDistance default_analyzer ''u''
      (store_of [point_at 1 0 0 0, point_at 2 0 0 60000, point_at 3 0 0 120000])
    = (Inr 3, store_of [point_at 1 0 0 0, point_at 2 0 0 60000, point_at 3 0 0 120000])
   \<and> getUnprocessedLocations ''u'' 1000
      (store_of [point_at 1 0 0 0, point_at 2 0 0 60000, point_at 3 0 0 120000])
    = (Inr [point_at 1 0 0 0, point_at 2 0 0 60000, point_at 3 0 0 120000],
       store_of [point_at 1 0 0 0, point_at 2 0 0 60000, point_at 3 0 0 120000])"
  by (simp add: run_defs haversine_same default_analyzer_def)

text \<open>
  A point at the origin, a five-minute stay half a turn away, and a point at the origin
  again: the first run records the stay and leaves the two outer points unprocessed.
\<close>

lemma straddled_stay_first_run:
  "run_once (store_of
      [point_at 1 0 0 0, point_at 2 0 180 60000, point_at 3 0 180 360000,
       point_at 4 0 0 420000])
   = \<lparr>tables =
        \<lparr>location_points =
           [point_at 1 0 0 0, (point_at 2 0 180 60000)\<lparr>place_id_l := Some 1\<rparr>,
            (point_at 3 0 180 360000)\<lparr>place_id_l := Some 1\<rparr>, point_at 4 0 0 420000],
         places = [sample_place\<lparr>center_lng := 180, visit_count := Some 1\<rparr>],
         place_visits =
           [\<lparr>id_v = Some 1, user_id_v = ''u'', place_id_v = Some 1, arrival_time = 60000,
             departure_time = Some 360000, duration_minutes = Some 5\<rparr>],
         places_id_seq = 1, place_visits_id_seq = 1\<rparr>,
      statements_left = None\<rparr>"
  using pi_ge_two
  by (simp add: run_once_def run_defs geo_simps default_analyzer_def sample_place_def)

text \<open>
  Claim C7, on the code. With nothing changed in between, the second run reads the two
  outer points again, finds them seven minutes apart at one spot now that the stay
  between them is gone from the input, and inserts a second visit row at a second place.
\<close>

theorem second_run_adds_visit:
  "place_visits (tables (run_once (store_of
      [point_at 1 0 0 0, point_at 2 0 180 60000, point_at 3 0 180 360000,
       point_at 4 0 0 420000])))
   = [\<lparr>id_v = Some 1, user_id_v = ''u'', place_id_v = Some 1, arrival_time = 60000,
        departure_time = Some 360000, duration_minutes = Some 5\<rparr>]
   \<and> place_visits (tables (run_once (run_once (store_of
      [point_at 1 0 0 0, point_at 2 0 180 60000, point_at 3 0 180 360000,
       point_at 4 0 0 420000]))))
   = [\<lparr>id_v = Some 1, user_id_v = ''u'', place_id_v = Some 1, arrival_time = 60000,
        departure_time = Some 360000, duration_minutes = Some 5\<rparr>,
      \<lparr>id_v = Some 2, user_id_v = ''u'', place_id_v = Some 2, arrival_time = 0,
        departure_time = Some 420000, duration_minutes = Some 7\<rparr>]"
  unfolding straddled_stay_first_run
  by (simp add: run_once_def run_defs geo_simps sample_place_def)

lemma five_minute_stay_first_run:
  "run_once (store_of [point_at 1 0 0 0, point_at 2 0 0 300000])
   = \<lparr>tables =
        \<lparr>location_points =
           [(point_at 1 0 0 0)\<lparr>place_id_l := Some 1\<rparr>,
            (point_at 2 0 0 300000)\<lparr>place_id_l := Some 1\<rparr>],
         places = [sample_place\<lparr>visit_count := Some 1\<rparr>],
         place_visits =
           [\<lparr>id_v = Some 1, user_id_v = ''u'', place_id_v = Some 1, arrival_time = 0,
             departure_time = Some 300000, duration_minutes = Some 5\<rparr>],
         places_id_seq = 1, place_visits_id_seq = 1\<rparr>,
      statements_left = None\<rparr>"
  by (simp add: run_once_def run_defs geo_simps default_analyzer_def sample_place_def)

text \<open>
  Claim C1, on the code. A five-minute stay is recorded: one visit row, counter 1. A
  later upload brings two more points of the same stay, eleven metres away, the first
  with the arrival's timestamp. The next run matches the same place and records a visit
  with the same key: the row is updated, not inserted, and the counter goes to 2 while
  one visit row references the place.
\<close>

theorem visit_counter_drifts_on_conflict:
  "places (tables (run_once (store_of [point_at 1 0 0 0, point_at 2 0 0 300000])))
     = [sample_place\<lparr>visit_count := Some 1\<rparr>]
   \<and> place_visits (tables (run_once (store_of [point_at 1 0 0 0, point_at 2 0 0 300000])))
     = [\<lparr>id_v = Some 1, user_id_v = ''u'', place_id_v = Some 1, arrival_time = 0,
          departure_time = Some 300000, duration_minutes = Some 5\<rparr>]
   \<and> places (tables (run_once
        (upload [point_at 3 (1 / 10000) 0 0, point_at 4 (1 / 10000) 0 360000]
          (run_once (store_of [point_at 1 0 0 0, point_at 2 0 0 300000])))))
     = [sample_place\<lparr>visit_count := Some 2\<rparr>]
   \<and> place_visits (tables (run_once
        (upload [point_at 3 (1 / 10000) 0 0, point_at 4 (1 / 10000) 0 360000]
          (run_once (store_of [point_at 1 0 0 0, point_at 2 0 0 300000])))))
     = [\<lparr>id_v = Some 1, user_id_v = ''u'', place_id_v = Some 1, arrival_time = 0,
          departure_time = Some 360000, duration_minutes = Some 6\<rparr>]"
  unfolding five_minute_stay_first_run
  by (simp add: run_once_def run_defs upload_def geo_simps eleven_metres_near sample_place_def)

text \<open>
  Claim C8, on the code. Two points in the window, the first reporting 3 m/s and the
  second 1 m/s: the statistics report a maximum of 1 and a moving average of 1, since the
  aggregates skip the first row of the window.
\<close>

theorem travel_stats_skip_first_point:
  "fst (getTravelStats haversineDistance ''u'' 0 500000
      (store_of [(point_at 1 0 0 0)\<lparr>speed := Some 3\<rparr>,
                 (point_at 2 0 0 500000)\<lparr>speed := Some 1\<rparr>]))
   = Inr \<lparr>total_distance_meters = 0, total_duration_minutes = 25 / 3,
          moving_time_minutes = 0, stationary_time_minutes = 0,
          average_speed_mps = 1, max_speed_mps = 1,
          date_range_start = 0, date_range_end = 500000\<rparr>"
  by (simp add: getTravelStats_def run_defs geo_simps)

section \<open>A failure between two statements\<close>

lemma pool_query_dead:
  "statements_left pool = Some 0 \<Longrightarrow> pool_query statement pool = (Inl ConnectionError, pool)"
  by (simp add: pool_query_def)

lemma pool_query_Suc:
  "statements_left pool = Some (Suc n) \<Longrightarrow>
   pool_query statement pool
     = (fst (statement (tables pool)),
        pool\<lparr>tables := snd (statement (tables pool)), statements_left := Some n\<rparr>)"
  by (simp add: pool_query_def split: prod.splits)

lemma recordPlaceVisit_dead:
  "statements_left pool = Some 0 \<Longrightarrow> recordPlaceVisit visit pool = (Inl ConnectionError, pool)"
  by (simp add: recordPlaceVisit_def await_def pool_query_dead)

lemma recordPlaceVisit_one:
  assumes "statements_left pool = Some 1"
    and "fst (insert_visit_statement visit (tables pool)) = Inr row"
  shows "recordPlaceVisit visit pool
     = (Inl ConnectionError,
        pool\<lparr>tables := snd (insert_visit_statement visit (tables pool)),
             statements_left := Some 0\<rparr>)"
proof -
  have 1: "pool_query (insert_visit_statement visit) pool
      = (Inr row, pool\<lparr>tables := snd (insert_visit_statement visit (tables pool)),
                       statements_left := Some 0\<rparr>)"
    using assms pool_query_Suc[of pool 0 "insert_visit_statement visit"] by simp
  show ?thesis
    unfolding recordPlaceVisit_def await_def 1 by (simp add: pool_query_dead)
qed

lemma insert_visit_places:
  "places (snd (insert_visit_statement visit t)) = places t"
  by (simp add: insert_visit_statement_def Let_def split: option.splits)

lemma find_SomeD: "find P xs = Some x \<Longrightarrow> x \<in> set xs \<and> P x"
  by (induction xs) (auto split: if_splits)

lemma insert_visit_row:
  assumes "fst (insert_visit_statement visit t) = Inr row"
  shows "row \<in> set (place_visits (snd (insert_visit_statement visit t)))"
proof -
  define conflict where
    "conflict = (\<lambda>v::PlaceVisit. place_id_v visit \<noteq> None
                         \<and> user_id_v v = user_id_v visit
                         \<and> place_id_v v = place_id_v visit
                         \<and> arrival_time v = arrival_time visit)"
  show ?thesis
  proof (cases "find conflict (place_visits t)")
    case None
    then show ?thesis
      using assms
      by (auto simp: insert_visit_statement_def Let_def conflict_def split: if_splits)
  next
    case (Some old)
    then have "old \<in> set (place_visits t)" "conflict old" by (auto dest: find_SomeD)
    then show ?thesis
      using assms Some
      by (auto simp: insert_visit_statement_def Let_def conflict_def image_iff
               intro!: bexI[of _ old])
  qed
qed

lemma find_False: "find (\<lambda>p. False) xs = None"
  by (induction xs) simp_all

lemma upsert_new_place:
  "upsertPlace_statement (new_place an userId cluster) t
   = (Inr ((new_place an userId cluster)
            \<lparr>id_p := Some (Suc (places_id_seq t)), visit_count := Some 0\<rparr>),
      t\<lparr>places := places t @
           [(new_place an userId cluster)
              \<lparr>id_p := Some (Suc (places_id_seq t)), visit_count := Some 0\<rparr>],
        places_id_seq := Suc (places_id_seq t)\<rparr>)"
  by (simp add: upsertPlace_statement_def new_place_def Let_def string_or_null_def find_False)

lemma pool_same:
  "statements_left pool = s \<Longrightarrow> pool\<lparr>tables := tables pool, statements_left := s\<rparr> = pool"
  "statements_left pool = s \<Longrightarrow> pool\<lparr>statements_left := s\<rparr> = pool"
  by (cases pool; simp)+

lemma findPlaceNear_Suc:
  "statements_left pool = Some (Suc k) \<Longrightarrow>
   findPlaceNear geo userId lat lng d pool
     = (Inr (nearest_place geo userId lat lng d (tables pool)),
        pool\<lparr>statements_left := Some k\<rparr>)"
  by (simp add: findPlaceNear_def pool_query_def nearest_place_def Let_def)

lemma upsert_new_place_Suc:
  "statements_left pool = Some (Suc k) \<Longrightarrow>
   upsertPlace (new_place an userId cluster) pool
     = (Inr (inserted_place an userId cluster (tables pool)),
        pool\<lparr>tables := (tables pool)
                 \<lparr>places := places (tables pool) @ [inserted_place an userId cluster (tables pool)],
                  places_id_seq := Suc (places_id_seq (tables pool))\<rparr>,
             statements_left := Some k\<rparr>)"
  by (simp add: upsertPlace_def pool_query_Suc upsert_new_place inserted_place_def)

lemma updateLocationPlace_Suc:
  "statements_left pool = Some (Suc k) \<Longrightarrow>
   updateLocationPlace i placeId pool
     = (Inr (), pool\<lparr>tables := assign_write placeId (tables pool) i, statements_left := Some k\<rparr>)"
  by (simp add: updateLocationPlace_def pool_query_def assign_write_def)

lemma assign_points_budget:
  "statements_left pool = Some k \<Longrightarrow>
   assign_points pts placeId n pool
     = (if k < length (truthy_ids pts)
        then (Inl ConnectionError,
              pool\<lparr>tables := foldl (assign_write placeId) (tables pool) (take k (truthy_ids pts)),
                   statements_left := Some 0\<rparr>)
        else (Inr (n + length (truthy_ids pts)),
              pool\<lparr>tables := foldl (assign_write placeId) (tables pool) (truthy_ids pts),
                   statements_left := Some (k - length (truthy_ids pts))\<rparr>))"
proof (induction pts arbitrary: n pool k)
  case Nil
  then show ?case by (simp add: truthy_ids_def resolve_def)
next
  case (Cons p ps)
  show ?case
  proof (cases "\<exists>i. id_l p = Some i \<and> i \<noteq> 0")
    case False
    then have t: "truthy_ids (p # ps) = truthy_ids ps"
      by (auto simp: truthy_ids_def split: option.splits)
    have "assign_points (p # ps) placeId n pool = assign_points ps placeId n pool"
      using False by (auto split: option.splits)
    then show ?thesis using Cons.IH[OF Cons.prems, of n] t by simp
  next
    case True
    then obtain i where i: "id_l p = Some i" "i \<noteq> 0" by blast
    then have t: "truthy_ids (p # ps) = i # truthy_ids ps" by (simp add: truthy_ids_def)
    have a: "assign_points (p # ps) placeId n pool
        = await (updateLocationPlace i placeId) (\<lambda>_. assign_points ps placeId (n + 1)) pool"
      using i by simp
    show ?thesis
    proof (cases k)
      case 0
      then have "updateLocationPlace i placeId pool = (Inl ConnectionError, pool)"
        using Cons.prems by (simp add: updateLocationPlace_def pool_query_dead)
      then show ?thesis using a t 0 Cons.prems by (simp add: await_def)
    next
      case (Suc k')
      let ?pool' = "pool\<lparr>tables := assign_write placeId (tables pool) i,
                          statements_left := Some k'\<rparr>"
      have u: "updateLocationPlace i placeId pool = (Inr (), ?pool')"
        using Cons.prems Suc by (simp add: updateLocationPlace_Suc)
      have s: "statements_left ?pool' = Some k'" by simp
      show ?thesis
        unfolding a using u Cons.IH[OF s, of "n + 1"] t Suc by (simp add: await_def)
    qed
  qed
qed

lemma recordPlaceVisit_two:
  assumes "statements_left pool = Some (Suc (Suc k))"
    and "fst (insert_visit_statement visit (tables pool)) = Inr row"
  shows "recordPlaceVisit visit pool
     = (Inr row,
        pool\<lparr>tables := snd (increment_visit_count_statement (place_id_v visit)
                             (snd (insert_visit_statement visit (tables pool)))),
             statements_left := Some k\<rparr>)"
proof -
  let ?pool1 = "pool\<lparr>tables := snd (insert_visit_statement visit (tables pool)),
                       statements_left := Some (Suc k)\<rparr>"
  have 1: "pool_query (insert_visit_statement visit) pool = (Inr row, ?pool1)"
    using assms pool_query_Suc[of pool "Suc k" "insert_visit_statement visit"] by simp
  have 2: "pool_query (increment_visit_count_statement (place_id_v visit)) ?pool1
      = (Inr (), ?pool1\<lparr>tables := snd (increment_visit_count_statement (place_id_v visit)
                                         (tables ?pool1)),
                        statements_left := Some k\<rparr>)"
    using pool_query_Suc[of ?pool1 k "increment_visit_count_statement (place_id_v visit)"]
    by (simp add: increment_visit_count_statement_def)
  show ?thesis
    unfolding recordPlaceVisit_def await_def 1 using 2 by (simp add: resolve_def)
qed

lemma insert_visit_succeeds:
  assumes "place_id_v visit = None \<or> list_ex (\<lambda>p. id_p p = place_id_v visit) (places t)"
  shows "\<exists>row. fst (insert_visit_statement visit t) = Inr row"
  using assms
  by (auto simp: insert_visit_statement_def Let_def split: option.splits)

lemma places_assign_write [simp]: "places (assign_write placeId t i) = places t"
  by (simp add: assign_write_def)

lemma places_foldl_assign [simp]: "places (foldl (assign_write placeId) t ids) = places t"
  by (induction ids arbitrary: t) simp_all

lemma nearest_place_in:
  "nearest_place geo userId lat lng d t = Some p \<Longrightarrow> p \<in> set (places t)"
proof -
  assume a: "nearest_place geo userId lat lng d t = Some p"
  let ?f = "filter (\<lambda>p. user_id_p p = userId \<and> geo (center_lat p) (center_lng p) lat lng \<le> d)
              (places t)"
  let ?s = "sort_key (\<lambda>p. geo (center_lat p) (center_lng p) lat lng) ?f"
  from a obtain xs where "?s = p # xs"
    by (auto simp: nearest_place_def split: list.splits)
  then have "p \<in> set ?s" by (metis list.set_intros(1))
  then have "p \<in> set ?f" by (simp only: set_sort)
  then show ?thesis by simp
qed

lemma cluster_place_referenced:
  "id_p (cluster_place geo an userId cluster t) = None
   \<or> list_ex (\<lambda>p. id_p p = id_p (cluster_place geo an userId cluster t))
        (places (with_cluster_place geo an userId cluster t))"
proof (cases "found_place geo an userId cluster t")
  case None
  then show ?thesis by (simp add: cluster_place_def with_cluster_place_def list_ex_iff)
next
  case (Some p)
  then have "p \<in> set (places t)" unfolding found_place_def by (rule nearest_place_in)
  then show ?thesis using Some
    by (auto simp: cluster_place_def with_cluster_place_def list_ex_iff)
qed

text \<open>The part of the loop body after the place is known.\<close>

lemma after_place:
  assumes "statements_left pool = Some j"
    and fk: "id_p place = None \<or> list_ex (\<lambda>p. id_p p = id_p place) (places (tables pool))"
  shows "await (assign_points pts (id_p place) n) (\<lambda>n'.
           await (recordPlaceVisit (cluster_visit userId cluster place)) (\<lambda>_. K n')) pool
     = (if j \<le> length (truthy_ids pts)
        then (Inl ConnectionError,
              pool\<lparr>tables := foldl (assign_write (id_p place)) (tables pool)
                                (take j (truthy_ids pts)),
                   statements_left := Some 0\<rparr>)
        else if j = length (truthy_ids pts) + 1
        then (Inl ConnectionError,
              pool\<lparr>tables := snd (insert_visit_statement (cluster_visit userId cluster place)
                                   (foldl (assign_write (id_p place)) (tables pool)
                                      (truthy_ids pts))),
                   statements_left := Some 0\<rparr>)
        else K (n + length (truthy_ids pts))
               (pool\<lparr>tables :=
                       snd (increment_visit_count_statement (id_p place)
                         (snd (insert_visit_statement (cluster_visit userId cluster place)
                            (foldl (assign_write (id_p place)) (tables pool)
                               (truthy_ids pts))))),
                     statements_left := Some (j - (length (truthy_ids pts) + 2))\<rparr>))"
proof -
  let ?m = "length (truthy_ids pts)"
  let ?V = "cluster_visit userId cluster place"
  let ?ta = "foldl (assign_write (id_p place)) (tables pool) (truthy_ids pts)"
  have pv: "place_id_v ?V = id_p place" by (simp add: cluster_visit_def)
  show ?thesis
  proof (cases "j < ?m")
    case True
    then show ?thesis
      using assign_points_budget[OF assms(1), of pts "id_p place" n] by (simp add: await_def)
  next
    case False
    let ?pool1 = "pool\<lparr>tables := ?ta, statements_left := Some (j - ?m)\<rparr>"
    have a: "assign_points pts (id_p place) n pool = (Inr (n + ?m), ?pool1)"
      using assign_points_budget[OF assms(1), of pts "id_p place" n] False by simp
    obtain row where row: "fst (insert_visit_statement ?V ?ta) = Inr row"
      using insert_visit_succeeds[of ?V ?ta] fk pv by auto
    consider (z) "j = ?m" | (o) "j = ?m + 1" | (t) "j \<ge> ?m + 2" using False by linarith
    then show ?thesis
    proof cases
      case z
      then have "recordPlaceVisit ?V ?pool1 = (Inl ConnectionError, ?pool1)"
        by (intro recordPlaceVisit_dead) simp
      then show ?thesis using a z by (simp add: await_def)
    next
      case o
      then have "recordPlaceVisit ?V ?pool1
          = (Inl ConnectionError,
             ?pool1\<lparr>tables := snd (insert_visit_statement ?V (tables ?pool1)),
                     statements_left := Some 0\<rparr>)"
        using row by (intro recordPlaceVisit_one[where row = row]) simp_all
      then show ?thesis using a o by (simp add: await_def)
    next
      case t
      define k where "k = j - (?m + 2)"
      have k: "j - ?m = Suc (Suc k)" "k = j - (?m + 2)" using t by (simp_all add: k_def)
      have "recordPlaceVisit ?V ?pool1
          = (Inr row,
             ?pool1\<lparr>tables := snd (increment_visit_count_statement (place_id_v ?V)
                                     (snd (insert_visit_statement ?V (tables ?pool1)))),
                     statements_left := Some k\<rparr>)"
        using row k by (intro recordPlaceVisit_two) simp_all
      then show ?thesis using a t k pv by (simp add: await_def)
    qed
  qed
qed

lemma five_minute_cluster:
  "duration_minutes_c (createCluster [point_at 1 0 0 0, point_at 2 0 0 300000]) = 5"
  "center_lat_c (createCluster [point_at 1 0 0 0, point_at 2 0 0 300000]) = 0"
  "center_lng_c (createCluster [point_at 1 0 0 0, point_at 2 0 0 300000]) = 0"
  "start_time (createCluster [point_at 1 0 0 0, point_at 2 0 0 300000]) = 0"
  "end_time (createCluster [point_at 1 0 0 0, point_at 2 0 0 300000]) = 300000"
  "points (createCluster [point_at 1 0 0 0, point_at 2 0 0 300000])
     = [point_at 1 0 0 0, point_at 2 0 0 300000]"
  by (simp_all add: createCluster_def Let_def Math_round_def)

text \<open>
  Claim C3, as the code has it. The statements of a significant cluster are committed
  one by one and nothing is rolled back. When the connection is lost after \<open>k\<close>
  statements of the cluster, the run is rejected and the store holds exactly the writes
  of those \<open>k\<close> statements: nothing when the place is not yet there; the place and the
  first assignments when the loss falls among the assignments or before the visit
  upsert; these and the visit row, the counter not incremented, when it falls between
  the visit upsert and the increment. With enough statements left the cluster is
  written in full and the run goes on to the next cluster.
\<close>

theorem significant_cluster_failure_keeps_writes:
  assumes "minStayMinutes an \<le> real_of_int (duration_minutes_c cluster)"
    and "statements_left pool = Some k"
  shows
   "(k < statements_before_assignments geo an userId cluster (tables pool) \<longrightarrow>
       process_clusters geo an userId (cluster # rest) n pool
         = (Inl ConnectionError, pool\<lparr>statements_left := Some 0\<rparr>))
    \<and> (statements_before_assignments geo an userId cluster (tables pool) \<le> k
        \<and> k \<le> statements_before_assignments geo an userId cluster (tables pool)
               + length (truthy_ids (points cluster)) \<longrightarrow>
       process_clusters geo an userId (cluster # rest) n pool
         = (Inl ConnectionError,
            pool\<lparr>tables :=
                   assigned geo an userId cluster (tables pool)
                     (k - statements_before_assignments geo an userId cluster (tables pool)),
                 statements_left := Some 0\<rparr>))
    \<and> (k = statements_before_assignments geo an userId cluster (tables pool)
               + length (truthy_ids (points cluster)) + 1 \<longrightarrow>
       process_clusters geo an userId (cluster # rest) n pool
         = (Inl ConnectionError,
            pool\<lparr>tables :=
                   snd (insert_visit_statement
                          (cluster_visit userId cluster
                             (cluster_place geo an userId cluster (tables pool)))
                          (assigned geo an userId cluster (tables pool)
                             (length (truthy_ids (points cluster))))),
                 statements_left := Some 0\<rparr>))
    \<and> (statements_before_assignments geo an userId cluster (tables pool)
               + length (truthy_ids (points cluster)) + 2 \<le> k \<longrightarrow>
       process_clusters geo an userId (cluster # rest) n pool
         = process_clusters geo an userId rest (n + length (truthy_ids (points cluster)))
             (pool\<lparr>tables :=
                    snd (increment_visit_count_statement
                           (id_p (cluster_place geo an userId cluster (tables pool)))
                           (snd (insert_visit_statement
                                   (cluster_visit userId cluster
                                      (cluster_place geo an userId cluster (tables pool)))
                                   (assigned geo an userId cluster (tables pool)
                                      (length (truthy_ids (points cluster))))))),
                  statements_left :=
                    Some (k - (statements_before_assignments geo an userId cluster (tables pool)
                               + length (truthy_ids (points cluster)) + 2))\<rparr>))"
proof -
  let ?t = "tables pool"
  let ?b = "statements_before_assignments geo an userId cluster ?t"
  let ?ids = "truthy_ids (points cluster)"
  let ?place = "cluster_place geo an userId cluster ?t"
  let ?t1 = "with_cluster_place geo an userId cluster ?t"
  let ?K = "\<lambda>n'. process_clusters geo an userId rest n'"
  let ?after = "\<lambda>place. await (assign_points (points cluster) (id_p place) n) (\<lambda>n'.
           await (recordPlaceVisit (cluster_visit userId cluster place)) (\<lambda>_. ?K n'))"
  have body: "process_clusters geo an userId (cluster # rest) n pool
      = await (findPlaceNear geo userId (center_lat_c cluster) (center_lng_c cluster)
                 (clusterRadiusMeters an)) (\<lambda>found.
        await (case found of Some place \<Rightarrow> resolve place
               | None \<Rightarrow> upsertPlace (new_place an userId cluster)) ?after) pool"
    using assms(1) unfolding new_place_def cluster_visit_def by simp
  have fk: "id_p ?place = None \<or> list_ex (\<lambda>p. id_p p = id_p ?place) (places ?t1)"
    by (rule cluster_place_referenced)
  have b12: "?b = 1 \<or> ?b = 2"
    by (simp add: statements_before_assignments_def split: option.splits)
  show ?thesis
  proof (cases "k < ?b")
    case True
    have "process_clusters geo an userId (cluster # rest) n pool
         = (Inl ConnectionError, pool\<lparr>statements_left := Some 0\<rparr>)"
    proof (cases k)
      case 0
      then have "findPlaceNear geo userId (center_lat_c cluster) (center_lng_c cluster)
                 (clusterRadiusMeters an) pool = (Inl ConnectionError, pool)"
        using assms(2) by (simp add: findPlaceNear_def pool_query_dead)
      then show ?thesis unfolding body using assms(2) 0 by (simp add: await_def pool_same)
    next
      case (Suc k')
      then have k1: "k = 1" and b2: "?b = 2" using True b12 by auto
      then have nf: "found_place geo an userId cluster ?t = None"
        by (auto simp: statements_before_assignments_def split: option.splits)
      let ?pool1 = "pool\<lparr>statements_left := Some 0\<rparr>"
      have f: "findPlaceNear geo userId (center_lat_c cluster) (center_lng_c cluster)
                 (clusterRadiusMeters an) pool = (Inr None, ?pool1)"
        using findPlaceNear_Suc[of pool 0 geo userId] assms(2) k1 nf
        by (simp add: found_place_def)
      have u: "upsertPlace (new_place an userId cluster) ?pool1 = (Inl ConnectionError, ?pool1)"
        by (simp add: upsertPlace_def pool_query_dead)
      show ?thesis unfolding body using f u by (simp add: await_def)
    qed
    then show ?thesis using True by simp
  next
    case False
    then have kb: "?b \<le> k" by simp
    let ?poolX = "pool\<lparr>tables := ?t1, statements_left := Some (k - ?b)\<rparr>"
    have reach: "process_clusters geo an userId (cluster # rest) n pool = ?after ?place ?poolX"
    proof (cases "found_place geo an userId cluster ?t")
      case (Some p)
      then have b1: "?b = 1" "?place = p" "?t1 = ?t"
        by (simp_all add: statements_before_assignments_def cluster_place_def
              with_cluster_place_def)
      obtain k' where k': "k = Suc k'" using kb b1 by (cases k) auto
      have f: "findPlaceNear geo userId (center_lat_c cluster) (center_lng_c cluster)
                 (clusterRadiusMeters an) pool = (Inr (Some p), pool\<lparr>statements_left := Some k'\<rparr>)"
        using findPlaceNear_Suc[of pool k' geo userId] assms(2) k' Some
        by (simp add: found_place_def)
      have "pool\<lparr>statements_left := Some k'\<rparr> = ?poolX"
        using b1 k' by (cases pool) simp
      then show ?thesis unfolding body using f b1 by (simp add: await_def resolve_def)
    next
      case None
      then have b2: "?b = 2" "?place = inserted_place an userId cluster ?t"
        "?t1 = ?t\<lparr>places := places ?t @ [inserted_place an userId cluster ?t],
                   places_id_seq := Suc (places_id_seq ?t)\<rparr>"
        by (simp_all add: statements_before_assignments_def cluster_place_def
              with_cluster_place_def)
      obtain k2 where k2: "k = Suc (Suc k2)" using kb b2
        by (cases k; cases "k - 1") auto
      let ?pool1 = "pool\<lparr>statements_left := Some (Suc k2)\<rparr>"
      have f: "findPlaceNear geo userId (center_lat_c cluster) (center_lng_c cluster)
                 (clusterRadiusMeters an) pool = (Inr None, ?pool1)"
        using findPlaceNear_Suc[of pool "Suc k2" geo userId] assms(2) k2 None
        by (simp add: found_place_def)
      have u: "upsertPlace (new_place an userId cluster) ?pool1
          = (Inr (inserted_place an userId cluster ?t), ?poolX)"
        using upsert_new_place_Suc[of ?pool1 k2 an userId cluster] b2 k2 by simp
      show ?thesis unfolding body using f u b2 by (simp add: await_def)
    qed
    have sl: "statements_left ?poolX = Some (k - ?b)" by simp
    have fk': "id_p ?place = None
        \<or> list_ex (\<lambda>p. id_p p = id_p ?place) (places (tables ?poolX))"
      using fk by simp
    note ap = after_place[OF sl fk', of "points cluster" n userId cluster ?K]
    have as: "assigned geo an userId cluster ?t j
        = foldl (assign_write (id_p ?place)) ?t1 (take j ?ids)" for j
      by (simp add: assigned_def)
    have as_all: "assigned geo an userId cluster ?t (length ?ids)
        = foldl (assign_write (id_p ?place)) ?t1 ?ids"
      by (simp add: assigned_def)
    show ?thesis
      unfolding reach as as_all using ap kb
      by (auto simp: add.commute add.left_commute)
  qed
qed

theorem significant_cluster_failure_keeps_writes_witness:
  "process_clusters haversineDistance default_analyzer ''u''
      [createCluster [point_at 1 0 0 0, point_at 2 0 0 300000]] 0
      ((store_of [point_at 1 0 0 0, point_at 2 0 0 300000])\<lparr>statements_left := Some 3\<rparr>)
     = (Inl ConnectionError,
        \<lparr>tables =
           \<lparr>location_points =
              [(point_at 1 0 0 0)\<lparr>place_id_l := Some 1\<rparr>, point_at 2 0 0 300000],
            places = [sample_place], place_visits = [],
            places_id_seq = 1, place_visits_id_seq = 0\<rparr>,
         statements_left = Some 0\<rparr>)
   \<and> process_clusters haversineDistance default_analyzer ''u''
      [createCluster [point_at 1 0 0 0, point_at 2 0 0 300000]] 0
      ((upload [point_at 1 0 0 0, point_at 2 0 0 300000] place_store)
         \<lparr>statements_left := Some 4\<rparr>)
     = (Inl ConnectionError,
        \<lparr>tables =
           \<lparr>location_points =
              [(point_at 1 0 0 0)\<lparr>place_id_l := Some 1\<rparr>,
               (point_at 2 0 0 300000)\<lparr>place_id_l := Some 1\<rparr>],
            places = [sample_place],
            place_visits =
              [\<lparr>id_v = Some 1, user_id_v = ''u'', place_id_v = Some 1, arrival_time = 0,
                departure_time = Some 300000, duration_minutes = Some 5\<rparr>],
            places_id_seq = 1, place_visits_id_seq = 1\<rparr>,
         statements_left = Some 0\<rparr>)"
proof -
  let ?c = "createCluster [point_at 1 0 0 0, point_at 2 0 0 300000]"
  let ?A = "(store_of [point_at 1 0 0 0, point_at 2 0 0 300000])\<lparr>statements_left := Some 3\<rparr>"
  let ?B = "(upload [point_at 1 0 0 0, point_at 2 0 0 300000] place_store)
              \<lparr>statements_left := Some 4\<rparr>"
  have sig: "minStayMinutes default_analyzer \<le> real_of_int (duration_minutes_c ?c)"
    using five_minute_cluster by simp
  have ids: "truthy_ids (points ?c) = [1, 2]"
    using five_minute_cluster by (simp add: truthy_ids_def)
  have fA: "found_place haversineDistance default_analyzer ''u'' ?c (tables ?A) = None"
    by (simp add: found_place_def nearest_place_def store_of_def)
  have fB: "found_place haversineDistance default_analyzer ''u'' ?c (tables ?B)
      = Some sample_place"
    using five_minute_cluster
    by (simp add: found_place_def nearest_place_def upload_def place_store_def
          sample_place_def haversine_same default_analyzer_def)
  have bA: "statements_before_assignments haversineDistance default_analyzer ''u'' ?c (tables ?A)
      = 2"
    using fA by (simp add: statements_before_assignments_def)
  have bB: "statements_before_assignments haversineDistance default_analyzer ''u'' ?c (tables ?B)
      = 1"
    using fB by (simp add: statements_before_assignments_def)
  have sA: "statements_left ?A = Some 3" by simp
  have sB: "statements_left ?B = Some 4" by simp
  have hA: "statements_before_assignments haversineDistance default_analyzer ''u'' ?c (tables ?A)
              \<le> 3
        \<and> 3 \<le> statements_before_assignments haversineDistance default_analyzer ''u'' ?c
                  (tables ?A) + length (truthy_ids (points ?c))"
    using bA ids by simp
  have hB: "4 = statements_before_assignments haversineDistance default_analyzer ''u'' ?c
                  (tables ?B) + length (truthy_ids (points ?c)) + 1"
    using bB ids by simp
  note A = significant_cluster_failure_keeps_writes
             [OF sig sA, of haversineDistance "''u''" "[]" 0,
              THEN conjunct2, THEN conjunct1, THEN mp, OF hA]
  note B = significant_cluster_failure_keeps_writes
             [OF sig sB, of haversineDistance "''u''" "[]" 0,
              THEN conjunct2, THEN conjunct2, THEN conjunct1, THEN mp, OF hB]
  have tA: "assigned haversineDistance default_analyzer ''u'' ?c (tables ?A)
              (3 - statements_before_assignments haversineDistance default_analyzer ''u'' ?c
                     (tables ?A))
      = \<lparr>location_points =
              [(point_at 1 0 0 0)\<lparr>place_id_l := Some 1\<rparr>, point_at 2 0 0 300000],
            places = [sample_place], place_visits = [],
            places_id_seq = 1, place_visits_id_seq = 0\<rparr>"
    using five_minute_cluster bA ids fA
    by (simp add: assigned_def cluster_place_def with_cluster_place_def
          inserted_place_def new_place_def assign_write_def store_of_def sample_place_def
          default_analyzer_def)
  have tB: "snd (insert_visit_statement
                   (cluster_visit ''u'' ?c
                      (cluster_place haversineDistance default_analyzer ''u'' ?c (tables ?B)))
                   (assigned haversineDistance default_analyzer ''u'' ?c (tables ?B)
                      (length (truthy_ids (points ?c)))))
      = \<lparr>location_points =
              [(point_at 1 0 0 0)\<lparr>place_id_l := Some 1\<rparr>,
               (point_at 2 0 0 300000)\<lparr>place_id_l := Some 1\<rparr>],
            places = [sample_place],
            place_visits =
              [\<lparr>id_v = Some 1, user_id_v = ''u'', place_id_v = Some 1, arrival_time = 0,
                departure_time = Some 300000, duration_minutes = Some 5\<rparr>],
            places_id_seq = 1, place_visits_id_seq = 1\<rparr>"
    using five_minute_cluster ids fB
    by (simp add: assigned_def cluster_place_def with_cluster_place_def
          assign_write_def upload_def place_store_def sample_place_def cluster_visit_def
          insert_visit_statement_def Let_def number_or_null_def)
  have "process_clusters haversineDistance default_analyzer ''u'' [?c] 0 ?A
     = (Inl ConnectionError,
        \<lparr>tables =
           \<lparr>location_points =
              [(point_at 1 0 0 0)\<lparr>place_id_l := Some 1\<rparr>, point_at 2 0 0 300000],
            places = [sample_place], place_visits = [],
            places_id_seq = 1, place_visits_id_seq = 0\<rparr>,
         statements_left = Some 0\<rparr>)"
    unfolding A tA by (simp add: store_of_def)
  moreover have "process_clusters haversineDistance default_analyzer ''u'' [?c] 0 ?B
     = (Inl ConnectionError,
        \<lparr>tables =
           \<lparr>location_points =
              [(point_at 1 0 0 0)\<lparr>place_id_l := Some 1\<rparr>,
               (point_at 2 0 0 300000)\<lparr>place_id_l := Some 1\<rparr>],
            places = [sample_place],
            place_visits =
              [\<lparr>id_v = Some 1, user_id_v = ''u'', place_id_v = Some 1, arrival_time = 0,
                departure_time = Some 300000, duration_minutes = Some 5\<rparr>],
            places_id_seq = 1, place_visits_id_seq = 1\<rparr>,
         statements_left = Some 0\<rparr>)"
    unfolding B tB by (simp add: upload_def place_store_def)
  ultimately show ?thesis by blast
qed

text \<open>
  Claim C3 as stated fails: when the connection is lost after the sixth statement of a
  run over one five-minute stay, the run is rejected, and the store holds the new
  place, both point assignments and the visit row, with the place's counter still 0.
\<close>

theorem run_aborted_after_visit_upsert_counterexample:
  "processUnprocessedLocations haversineDistance default_analyzer ''u''
     ((store_of [point_at 1 0 0 0, point_at 2 0 0 300000])\<lparr>statements_left := Some 6\<rparr>)
   = (Inl ConnectionError,
      \<lparr>tables =
         \<lparr>location_points =
            [(point_at 1 0 0 0)\<lparr>place_id_l := Some 1\<rparr>,
             (point_at 2 0 0 300000)\<lparr>place_id_l := Some 1\<rparr>],
          places = [sample_place],
          place_visits =
            [\<lparr>id_v = Some 1, user_id_v = ''u'', place_id_v = Some 1, arrival_time = 0,
              departure_time = Some 300000, duration_minutes = Some 5\<rparr>],
          places_id_seq = 1, place_visits_id_seq = 1\<rparr>,
       statements_left = Some 0\<rparr>)"
  by (simp add: run_defs geo_simps default_analyzer_def sample_place_def)


section \<open>Labels under enrichment\<close>

lemma inferCategory_premise: "inferCategory [''premise''] = ''home''"
  by (simp add: inferCategory_def categoryMap_def)

lemma labelled_store_eq:
  "labelled_store =
     \<lparr>tables = \<lparr>location_points = [],
        places = [sample_place\<lparr>name := Some ''Work''\<rparr>,
                  sample_place\<lparr>id_p := Some 2, name := Some ''Home'',
                     address := Some ''1 Main St'', google_place_id := Some ''G'',
                     google_place_name := Some ''1 Main St'',
                     google_place_types := Some [''premise'']\<rparr>],
        place_visits = [],
        places_id_seq = 2, place_visits_id_seq = 0\<rparr>,
      statements_left = None\<rparr>"
  by (simp add: labelled_store_def place_store_def sample_place_def sample_client_def
        enrich_place_with_google_def getAllPlaces_def labelPlace_def reverseGeocode_def
        inferCategory_premise upsertPlace_def upsertPlace_statement_def
        await_def resolve_def pool_query_def Let_def string_or_null_def COALESCE_def)

text \<open>
  Claim C9, on the code. The handler looks a place up by its id and upserts it without
  the id, so the row written is the one that holds the user's Google place id, or a new
  row. Enriching place 1 of the one-place store inserts a second row and leaves place 1
  without a Google id. In the sample store that second row is labelled \<open>Home\<close>;
  enriching place 1, labelled \<open>Work\<close>, once more overwrites the label \<open>Home\<close> with
  \<open>Work\<close>.
\<close>

theorem enrichment_overwrites_other_label:
  "map id_p (places (tables
       (snd (enrich_place_with_google (Some sample_client) ''u'' 1 place_store))))
     = [Some 1, Some 2]
   \<and> map google_place_id (places (tables
       (snd (enrich_place_with_google (Some sample_client) ''u'' 1 place_store))))
     = [None, Some ''G'']
   \<and> map name (places (tables labelled_store)) = [Some ''Work'', Some ''Home'']
   \<and> map name (places (tables
         (snd (enrich_place_with_google (Some sample_client) ''u'' 1 labelled_store))))
       = [Some ''Work'', Some ''Work'']"
  unfolding labelled_store_eq
  by (simp add: place_store_def sample_place_def sample_client_def
        enrich_place_with_google_def getAllPlaces_def reverseGeocode_def
        inferCategory_premise upsertPlace_def upsertPlace_statement_def
        await_def resolve_def pool_query_def Let_def string_or_null_def COALESCE_def)

end
